theory Spec2Isabelle
  imports Complex_Main "HOL-Library.Log_Nat"
begin

section \<open>IMU preintegration node of SC-LIO-SAM: data model\<close>

text \<open>
  The development embeds the class \<^verbatim>\<open>IMUPreintegration\<close> of
  \<^verbatim>\<open>src/SC-LIO-SAM/src/imuPreintegration.cpp\<close>: its two handlers
  \<^verbatim>\<open>odometryHandler\<close> (the spec's onLidarPose) and \<^verbatim>\<open>imuHandler\<close> (the spec's
  onInertialSample), with \<^verbatim>\<open>resetOptimization\<close>, \<^verbatim>\<open>resetParams\<close> and
  \<^verbatim>\<open>failureDetection\<close>.

  Numbers. A C++ \<^verbatim>\<open>double\<close> is a \<^typ>\<open>real\<close>: the doubles of the model are finite,
  there is no NaN and no infinity. Comparisons of time stamps are exact on finite
  doubles, the subtraction of \<^verbatim>\<open>delta_t = 0\<close> is exact, and the sign of a rounded
  difference is the sign of the exact one. The arithmetic inside the library
  (\<^verbatim>\<open>Pose3::compose\<close>) is the exact one, without rounding. What the handlers
  themselves do in single precision is modelled: a C++ \<^verbatim>\<open>float\<close> is a \<open>real\<close> that
  is a binary32 value, the narrowing of a \<^verbatim>\<open>double\<close> to \<^verbatim>\<open>float\<close> rounds (see
  \<open>float_of_double\<close>), and the norm of an \<^verbatim>\<open>Eigen::Vector3f\<close> is computed with
  rounded operations.

  The mutex held by both handlers makes each handler call atomic; a handler is a
  function from the state of the object to its next state. The class
  \<^verbatim>\<open>TransformFusion\<close> of the same file only composes poses for display and is left
  out.
\<close>

subsection \<open>Vectors, rotations, poses\<close>

datatype Vector3 = Vector3 (vx: real) (vy: real) (vz: real)

type_synonym Point3 = Vector3

datatype Quaternion = Quaternion (qw: real) (qx: real) (qy: real) (qz: real)

text \<open>A rotation is its 3x3 matrix, written row by row.\<close>

datatype Rot3 = Rot3M real real real real real real real real real

definition vadd :: "Vector3 \<Rightarrow> Vector3 \<Rightarrow> Vector3" where
  "vadd a b = Vector3 (vx a + vx b) (vy a + vy b) (vz a + vz b)"

fun rotate3 :: "Rot3 \<Rightarrow> Point3 \<Rightarrow> Point3" where
  "rotate3 (Rot3M a11 a12 a13 a21 a22 a23 a31 a32 a33) p =
     Vector3 (a11 * vx p + a12 * vy p + a13 * vz p)
             (a21 * vx p + a22 * vy p + a23 * vz p)
             (a31 * vx p + a32 * vy p + a33 * vz p)"

fun rmul :: "Rot3 \<Rightarrow> Rot3 \<Rightarrow> Rot3" where
  "rmul (Rot3M a11 a12 a13 a21 a22 a23 a31 a32 a33)
        (Rot3M b11 b12 b13 b21 b22 b23 b31 b32 b33) =
     Rot3M (a11 * b11 + a12 * b21 + a13 * b31) (a11 * b12 + a12 * b22 + a13 * b32)
           (a11 * b13 + a12 * b23 + a13 * b33)
           (a21 * b11 + a22 * b21 + a23 * b31) (a21 * b12 + a22 * b22 + a23 * b32)
           (a21 * b13 + a22 * b23 + a23 * b33)
           (a31 * b11 + a32 * b21 + a33 * b31) (a31 * b12 + a32 * b22 + a33 * b32)
           (a31 * b13 + a32 * b23 + a33 * b33)"

text \<open>
  \<^verbatim>\<open>gtsam::Rot3(w, x, y, z)\<close> and \<^verbatim>\<open>gtsam::Rot3::Quaternion(w, x, y, z)\<close> build the
  rotation from a quaternion through Eigen's \<^verbatim>\<open>toRotationMatrix\<close>, which does not
  normalise.
\<close>

definition Rot3_Quaternion :: "real \<Rightarrow> real \<Rightarrow> real \<Rightarrow> real \<Rightarrow> Rot3" where
  "Rot3_Quaternion w x y z =
     Rot3M (1 - (2 * y * y + 2 * z * z)) (2 * x * y - 2 * z * w) (2 * x * z + 2 * y * w)
           (2 * x * y + 2 * z * w) (1 - (2 * x * x + 2 * z * z)) (2 * y * z - 2 * x * w)
           (2 * x * z - 2 * y * w) (2 * y * z + 2 * x * w) (1 - (2 * x * x + 2 * y * y))"

definition Rot3_of :: "Quaternion \<Rightarrow> Rot3" where
  "Rot3_of q = Rot3_Quaternion (qw q) (qx q) (qy q) (qz q)"

definition Rot3_identity :: Rot3 where
  "Rot3_identity = Rot3M 1 0 0 0 1 0 0 0 1"

datatype Pose3 = Pose3 (rotation: Rot3) (translation: Point3)

text \<open>\<^verbatim>\<open>Pose3::compose\<close>: \<^verbatim>\<open>Pose3(R_ * T.R_, t_ + R_ * T.t_)\<close>.\<close>

definition compose :: "Pose3 \<Rightarrow> Pose3 \<Rightarrow> Pose3" where
  "compose P T = Pose3 (rmul (rotation P) (rotation T))
                       (vadd (translation P) (rotate3 (rotation P) (translation T)))"

record NavState =
  pose :: Pose3
  velocity :: Vector3

record ConstantBias =
  accelerometer :: Vector3
  gyroscope :: Vector3

definition ConstantBias_zero :: ConstantBias where
  "ConstantBias_zero = \<lparr>accelerometer = Vector3 0 0 0, gyroscope = Vector3 0 0 0\<rparr>"

subsection \<open>Messages\<close>

text \<open>
  \<^verbatim>\<open>sensor_msgs::Imu\<close> and \<^verbatim>\<open>nav_msgs::Odometry\<close>, with the fields the handlers read
  or write. \<^verbatim>\<open>ROS_TIME(m)\<close> is \<^verbatim>\<open>m->header.stamp.toSec()\<close>, the field \<open>stamp\<close>;
  \<open>covariance\<close> is the 36-element array \<^verbatim>\<open>pose.covariance\<close>.
\<close>

record Imu =
  stamp :: real
  linear_acceleration :: Vector3
  angular_velocity :: Vector3
  orientation :: Quaternion

record Odometry =
  odom_stamp :: real
  frame_id :: string
  child_frame_id :: string
  position :: Point3
  odom_orientation :: Quaternion
  covariance :: "real list"
  twist_linear :: Vector3
  twist_angular :: Vector3

subsection \<open>The preintegrator\<close>

datatype error = InvalidTimestepping

text \<open>
  \<^verbatim>\<open>gtsam::PreintegratedImuMeasurements\<close> is a library class that is not in the
  repository. The accumulator is kept as what determines it: the reference bias of the
  last reset and the samples integrated since, in order, each with its time step.
\<close>

record Preintegrated =
  biasHat :: ConstantBias
  measurements :: "(Vector3 \<times> Vector3 \<times> real) list"

text \<open>
  Modelled from the spec: \<^verbatim>\<open>integrateMeasurement\<close>, \<^verbatim>\<open>resetIntegrationAndSetBias\<close> and
  \<^verbatim>\<open>deltaTij\<close> of the library class, which is missing from the sources. The spec
  (4.1) gives the contract: \<^verbatim>\<open>reset(bias)\<close> always succeeds;
  \<^verbatim>\<open>integrate(acc, gyr, dt)\<close> with \<open>dt \<le> 0\<close> fails with InvalidTimestepping;
  \<^verbatim>\<open>deltaTij()\<close> is the integration interval. The handlers have no \<^verbatim>\<open>try\<close>, so a
  failing call ends the handler with that failure: the handlers return
  \<open>error + State\<close>.
\<close>

definition resetIntegrationAndSetBias :: "ConstantBias \<Rightarrow> Preintegrated \<Rightarrow> Preintegrated" where
  "resetIntegrationAndSetBias b p = \<lparr>biasHat = b, measurements = []\<rparr>"

definition integrateMeasurement ::
  "Vector3 \<Rightarrow> Vector3 \<Rightarrow> real \<Rightarrow> Preintegrated \<Rightarrow> error + Preintegrated" where
  "integrateMeasurement acc gyr dt p =
     (if dt \<le> 0 then Inl InvalidTimestepping
      else Inr (p\<lparr>measurements := measurements p @ [(acc, gyr, dt)]\<rparr>))"

definition deltaTij :: "Preintegrated \<Rightarrow> real" where
  "deltaTij p = sum_list (map (\<lambda>m. snd (snd m)) (measurements p))"

subsection \<open>Single precision\<close>

text \<open>
  The narrowing of a \<^verbatim>\<open>double\<close> to \<^verbatim>\<open>float\<close> (the locals of lines 297 to 303, the
  \<^verbatim>\<open>Eigen::Vector3f\<close> of lines 471, 478 and 479) rounds to the nearest binary32
  value, ties to the even significand (IEEE 754): 24 bits of significand, the
  exponent of a normal value from -126 on, subnormal values in steps of \<open>2^-149\<close>.
  \<open>float_exponent a\<close> is the integer \<open>e\<close> with \<open>2^e \<le> a < 2^(e+1)\<close>, for \<open>a > 0\<close>.
  A magnitude that rounds to \<open>2^128\<close> or more is infinite in the program; the model
  has no infinite value and keeps the rounded real there, which lies above every
  bound the program compares with.
\<close>

definition pow2 :: "int \<Rightarrow> real" where
  "pow2 e = (if 0 \<le> e then 2 ^ nat e else 1 / 2 ^ nat (- e))"

definition float_exponent :: "real \<Rightarrow> int" where
  "float_exponent a = (if 1 \<le> a then bitlen \<lfloor>a\<rfloor> - 1 else - bitlen (\<lceil>1 / a\<rceil> - 1))"

definition round_half_even :: "real \<Rightarrow> int" where
  "round_half_even r =
     (let n = \<lfloor>r\<rfloor> in
      if r - of_int n < 1 / 2 then n
      else if 1 / 2 < r - of_int n then n + 1
      else if even n then n else n + 1)"

definition float_of_double :: "real \<Rightarrow> real" where
  "float_of_double a =
     (if a = 0 then 0
      else
        let e = max (float_exponent \<bar>a\<bar>) (- 126);
            ulp = pow2 (e - 23)
        in sgn a * of_int (round_half_even (\<bar>a\<bar> / ulp)) * ulp)"

text \<open>
  The operations on \<^verbatim>\<open>float\<close> are correctly rounded: the exact result, rounded to
  binary32.
\<close>

definition fmul :: "real \<Rightarrow> real \<Rightarrow> real" where
  "fmul a b = float_of_double (a * b)"

definition fadd :: "real \<Rightarrow> real \<Rightarrow> real" where
  "fadd a b = float_of_double (a + b)"

definition fsqrt :: "real \<Rightarrow> real" where
  "fsqrt a = float_of_double (sqrt a)"

text \<open>
  \<^verbatim>\<open>Eigen::Vector3f(x, y, z)\<close> with \<^verbatim>\<open>double\<close> arguments narrows each of them.
  \<^verbatim>\<open>Eigen::Vector3f::norm()\<close> is the square root of the sum of the squares, all in
  single precision; Eigen unrolls the sum of three coefficients as the first plus
  the sum of the other two.
\<close>

definition Vector3f :: "real \<Rightarrow> real \<Rightarrow> real \<Rightarrow> Vector3" where
  "Vector3f a b c = Vector3 (float_of_double a) (float_of_double b) (float_of_double c)"

definition norm3f :: "Vector3 \<Rightarrow> real" where
  "norm3f a = fsqrt (fadd (fmul (vx a) (vx a)) (fadd (fmul (vy a) (vy a)) (fmul (vz a) (vz a))))"

subsection \<open>Failure detection\<close>

text \<open>The Euclidean norm of a vector, in exact arithmetic.\<close>

definition norm3 :: "Vector3 \<Rightarrow> real" where
  "norm3 a = sqrt (vx a * vx a + vy a * vy a + vz a * vz a)"

text \<open>
  \<^verbatim>\<open>failureDetection(velCur, biasCur)\<close>: the two \<^verbatim>\<open>ROS_WARN\<close> lines write to the
  console only and are not part of the state.
\<close>

definition failureDetection :: "Vector3 \<Rightarrow> ConstantBias \<Rightarrow> bool" where
  "failureDetection velCur biasCur =
     (let vel = Vector3f (vx velCur) (vy velCur) (vz velCur) in
      if norm3f vel > 30 then True
      else
        let ba = Vector3f (vx (accelerometer biasCur)) (vy (accelerometer biasCur))
                          (vz (accelerometer biasCur));
            bg = Vector3f (vx (gyroscope biasCur)) (vy (gyroscope biasCur))
                          (vz (gyroscope biasCur))
        in if norm3f ba > 1 \<or> norm3f bg > 1 then True else False)"

subsection \<open>Factors, values and the smoother\<close>

text \<open>
  \<^verbatim>\<open>X(j)\<close>, \<^verbatim>\<open>V(j)\<close>, \<^verbatim>\<open>B(j)\<close> of \<^verbatim>\<open>gtsam::symbol_shorthand\<close>. The counter
  \<^verbatim>\<open>key\<close> is a C++ \<^verbatim>\<open>int\<close> that stays between 1 and 100 once the system is
  initialised, so the index is an \<^typ>\<open>int\<close> and nothing wraps.
\<close>

datatype Symbol = X int | V int | B int

datatype noiseModel =
    Diagonal_Sigmas "real list"
  | Isotropic_Sigma nat real
  | Gaussian_Covariance "real list list"

datatype Factor =
    PriorFactor_Pose3 Symbol Pose3 noiseModel
  | PriorFactor_Vector3 Symbol Vector3 noiseModel
  | PriorFactor_Bias Symbol ConstantBias noiseModel
  | ImuFactor Symbol Symbol Symbol Symbol Symbol Preintegrated
  | BetweenFactor_Bias Symbol Symbol ConstantBias noiseModel

datatype Value = Pose3_value Pose3 | Vector3_value Vector3 | Bias_value ConstantBias

type_synonym NonlinearFactorGraph = "Factor list"
type_synonym Values = "(Symbol \<times> Value) list"

record ISAM2Params =
  relinearizeThreshold :: real
  relinearizeSkip :: int

text \<open>
  \<^verbatim>\<open>gtsam::ISAM2\<close> is library code. The smoother is kept as what determines it: the
  parameters it was constructed with (\<open>None\<close> for the default constructor) and the
  \<^verbatim>\<open>update\<close> calls it has received since, in order. What it computes from them
  (\<^verbatim>\<open>calculateEstimate\<close>, \<^verbatim>\<open>marginalCovariance\<close>) is a parameter of the model,
  see \<open>Deps\<close> below.
\<close>

record ISAM2 =
  params :: "ISAM2Params option"
  updates :: "(NonlinearFactorGraph \<times> Values) list"

definition ISAM2_new :: "ISAM2Params option \<Rightarrow> ISAM2" where
  "ISAM2_new ps = \<lparr>params = ps, updates = []\<rparr>"

definition ISAM2_update :: "NonlinearFactorGraph \<Rightarrow> Values \<Rightarrow> ISAM2 \<Rightarrow> ISAM2" where
  "ISAM2_update fs vs opt = opt\<lparr>updates := updates opt @ [(fs, vs)]\<rparr>"

subsection \<open>What the class takes from outside\<close>

text \<open>
  Configuration of \<^verbatim>\<open>ParamServer\<close> (\<^verbatim>\<open>utility.h\<close>, not among the sources) and the
  library functions whose results the handlers only pass on:
  \<^verbatim>\<open>imuConverter\<close> (\<^verbatim>\<open>utility.h\<close>), \<^verbatim>\<open>PreintegratedImuMeasurements::predict\<close>,
  \<^verbatim>\<open>ISAM2::marginalCovariance\<close>, \<^verbatim>\<open>ISAM2::calculateEstimate\<close> followed by
  \<^verbatim>\<open>Values::at<T>\<close>, and \<^verbatim>\<open>Rot3::toQuaternion\<close>. The smoother calls are taken to
  return.
\<close>

record Deps =
  extTrans :: Vector3
  odometryFrame :: string
  imuAccBiasN :: real
  imuGyrBiasN :: real
  imuConverter :: "Imu \<Rightarrow> Imu"
  predict :: "Preintegrated \<Rightarrow> NavState \<Rightarrow> ConstantBias \<Rightarrow> NavState"
  marginalCovariance :: "ISAM2 \<Rightarrow> Symbol \<Rightarrow> real list list"
  estimatePose3 :: "ISAM2 \<Rightarrow> Symbol \<Rightarrow> Pose3"
  estimateVector3 :: "ISAM2 \<Rightarrow> Symbol \<Rightarrow> Vector3"
  estimateBias :: "ISAM2 \<Rightarrow> Symbol \<Rightarrow> ConstantBias"
  toQuaternion :: "Rot3 \<Rightarrow> Quaternion"

subsection \<open>Members of \<^verbatim>\<open>IMUPreintegration\<close>\<close>

text \<open>The noise models set once by the constructor.\<close>

definition priorPoseNoise :: noiseModel where
  "priorPoseNoise = Diagonal_Sigmas [1/100, 1/100, 1/100, 1/100, 1/100, 1/100]"

definition priorVelNoise :: noiseModel where
  "priorVelNoise = Isotropic_Sigma 3 10000"

definition priorBiasNoise :: noiseModel where
  "priorBiasNoise = Isotropic_Sigma 6 (1/1000)"

definition correctionNoise :: noiseModel where
  "correctionNoise = Diagonal_Sigmas [5/100, 5/100, 5/100, 1/10, 1/10, 1/10]"

definition correctionNoise2 :: noiseModel where
  "correctionNoise2 = Diagonal_Sigmas [1, 1, 1, 1, 1, 1]"

definition noiseModelBetweenBias :: "Deps \<Rightarrow> real list" where
  "noiseModelBetweenBias d =
     [imuAccBiasN d, imuAccBiasN d, imuAccBiasN d, imuGyrBiasN d, imuGyrBiasN d, imuGyrBiasN d]"

definition delta_t :: real where
  "delta_t = 0"

text \<open>\<^verbatim>\<open>imu2Lidar\<close> and \<^verbatim>\<open>lidar2Imu\<close>, lines 226 and 228.\<close>

definition imu2Lidar :: "Deps \<Rightarrow> Pose3" where
  "imu2Lidar d = Pose3 (Rot3_Quaternion 1 0 0 0)
                       (Vector3 (- vx (extTrans d)) (- vy (extTrans d)) (- vz (extTrans d)))"

definition lidar2Imu :: "Deps \<Rightarrow> Pose3" where
  "lidar2Imu d = Pose3 (Rot3_Quaternion 1 0 0 0)
                       (Vector3 (vx (extTrans d)) (vy (extTrans d)) (vz (extTrans d)))"

text \<open>
  The mutable members; \<open>pubImuOdometry\<close> is the sequence of messages published
  on that publisher so far.
\<close>

record State =
  systemInitialized :: bool
  imuIntegratorOpt :: Preintegrated
  imuIntegratorImu :: Preintegrated
  imuQueOpt :: "Imu list"
  imuQueImu :: "Imu list"
  prevPose :: Pose3
  prevVel :: Vector3
  prevState :: NavState
  prevBias :: ConstantBias
  prevStateOdom :: NavState
  prevBiasOdom :: ConstantBias
  doneFirstOpt :: bool
  lastImuT_imu :: real
  lastImuT_opt :: real
  optimizer :: ISAM2
  graphFactors :: NonlinearFactorGraph
  graphValues :: Values
  key :: int
  pubImuOdometry :: "Odometry list"

definition Pose3_identity :: Pose3 where
  "Pose3_identity = Pose3 Rot3_identity (Vector3 0 0 0)"

text \<open>
  The object after its constructor. \<^verbatim>\<open>prevVel_\<close> is left uninitialised by the
  constructor and is written before it is first read; it is zero here.
\<close>

definition initialState :: State where
  "initialState =
     \<lparr>systemInitialized = False,
      imuIntegratorOpt = \<lparr>biasHat = ConstantBias_zero, measurements = []\<rparr>,
      imuIntegratorImu = \<lparr>biasHat = ConstantBias_zero, measurements = []\<rparr>,
      imuQueOpt = [], imuQueImu = [],
      prevPose = Pose3_identity, prevVel = Vector3 0 0 0,
      prevState = \<lparr>pose = Pose3_identity, velocity = Vector3 0 0 0\<rparr>,
      prevBias = ConstantBias_zero,
      prevStateOdom = \<lparr>pose = Pose3_identity, velocity = Vector3 0 0 0\<rparr>,
      prevBiasOdom = ConstantBias_zero,
      doneFirstOpt = False, lastImuT_imu = - 1, lastImuT_opt = - 1,
      optimizer = ISAM2_new None, graphFactors = [], graphValues = [],
      key = 1, pubImuOdometry = []\<rparr>"

definition resetOptimization :: "State \<Rightarrow> State" where
  "resetOptimization s =
     (let optParameters = \<lparr>relinearizeThreshold = 1/10, relinearizeSkip = 1\<rparr>
      in s\<lparr>optimizer := ISAM2_new (Some optParameters), graphFactors := [], graphValues := []\<rparr>)"

definition resetParams :: "State \<Rightarrow> State" where
  "resetParams s = s\<lparr>lastImuT_imu := - 1, doneFirstOpt := False, systemInitialized := False\<rparr>"

section \<open>The handlers\<close>

subsection \<open>\<^verbatim>\<open>odometryHandler\<close>\<close>

text \<open>The C++ conversion \<^verbatim>\<open>(int)\<close> of a double truncates towards zero.\<close>

definition int_of_double :: "real \<Rightarrow> int" where
  "int_of_double a = (if 0 \<le> a then \<lfloor>a\<rfloor> else \<lceil>a\<rceil>)"

text \<open>
  Lines 313 to 322: the loop that pops the samples older than the correction time
  from the front of \<^verbatim>\<open>imuQueOpt\<close> and remembers the time of the last one popped.
  It returns the new \<^verbatim>\<open>lastImuT_opt\<close> and the queue that is left.
\<close>

fun popOldImu :: "real \<Rightarrow> real \<Rightarrow> Imu list \<Rightarrow> real \<times> Imu list" where
  "popOldImu t lastT [] = (lastT, [])"
| "popOldImu t lastT (m # q) =
     (if stamp m < t - delta_t then popOldImu t (stamp m) q else (lastT, m # q))"

text \<open>Lines 308 to 350: the block that initialises the system.\<close>

definition initializeSystem :: "Deps \<Rightarrow> real \<Rightarrow> Pose3 \<Rightarrow> State \<Rightarrow> State" where
  "initializeSystem d currentCorrectionTime lidarPose s0 =
     (let s = resetOptimization s0;
          (lastT, q) = popOldImu currentCorrectionTime (lastImuT_opt s) (imuQueOpt s);
          s = s\<lparr>lastImuT_opt := lastT, imuQueOpt := q\<rparr>;
          s = s\<lparr>prevPose := compose lidarPose (lidar2Imu d)\<rparr>;
          priorPose = PriorFactor_Pose3 (X 0) (prevPose s) priorPoseNoise;
          s = s\<lparr>graphFactors := graphFactors s @ [priorPose]\<rparr>;
          s = s\<lparr>prevVel := Vector3 0 0 0\<rparr>;
          priorVel = PriorFactor_Vector3 (V 0) (prevVel s) priorVelNoise;
          s = s\<lparr>graphFactors := graphFactors s @ [priorVel]\<rparr>;
          s = s\<lparr>prevBias := ConstantBias_zero\<rparr>;
          priorBias = PriorFactor_Bias (B 0) (prevBias s) priorBiasNoise;
          s = s\<lparr>graphFactors := graphFactors s @ [priorBias]\<rparr>;
          s = s\<lparr>graphValues := graphValues s @ [(X 0, Pose3_value (prevPose s))]\<rparr>;
          s = s\<lparr>graphValues := graphValues s @ [(V 0, Vector3_value (prevVel s))]\<rparr>;
          s = s\<lparr>graphValues := graphValues s @ [(B 0, Bias_value (prevBias s))]\<rparr>;
          s = s\<lparr>optimizer := ISAM2_update (graphFactors s) (graphValues s) (optimizer s)\<rparr>;
          s = s\<lparr>graphFactors := [], graphValues := []\<rparr>;
          s = s\<lparr>imuIntegratorImu := resetIntegrationAndSetBias (prevBias s) (imuIntegratorImu s)\<rparr>;
          s = s\<lparr>imuIntegratorOpt := resetIntegrationAndSetBias (prevBias s) (imuIntegratorOpt s)\<rparr>
      in s\<lparr>key := 1, systemInitialized := True\<rparr>)"

text \<open>Lines 353 to 380: the body of \<^verbatim>\<open>if (key == 100)\<close>.\<close>

definition resetGraph :: "Deps \<Rightarrow> State \<Rightarrow> State" where
  "resetGraph d s0 =
     (let updatedPoseNoise = Gaussian_Covariance (marginalCovariance d (optimizer s0) (X (key s0 - 1)));
          updatedVelNoise = Gaussian_Covariance (marginalCovariance d (optimizer s0) (V (key s0 - 1)));
          updatedBiasNoise = Gaussian_Covariance (marginalCovariance d (optimizer s0) (B (key s0 - 1)));
          s = resetOptimization s0;
          priorPose = PriorFactor_Pose3 (X 0) (prevPose s) updatedPoseNoise;
          s = s\<lparr>graphFactors := graphFactors s @ [priorPose]\<rparr>;
          priorVel = PriorFactor_Vector3 (V 0) (prevVel s) updatedVelNoise;
          s = s\<lparr>graphFactors := graphFactors s @ [priorVel]\<rparr>;
          priorBias = PriorFactor_Bias (B 0) (prevBias s) updatedBiasNoise;
          s = s\<lparr>graphFactors := graphFactors s @ [priorBias]\<rparr>;
          s = s\<lparr>graphValues := graphValues s @ [(X 0, Pose3_value (prevPose s))]\<rparr>;
          s = s\<lparr>graphValues := graphValues s @ [(V 0, Vector3_value (prevVel s))]\<rparr>;
          s = s\<lparr>graphValues := graphValues s @ [(B 0, Bias_value (prevBias s))]\<rparr>;
          s = s\<lparr>optimizer := ISAM2_update (graphFactors s) (graphValues s) (optimizer s)\<rparr>;
          s = s\<lparr>graphFactors := [], graphValues := []\<rparr>
      in s\<lparr>key := 1\<rparr>)"

text \<open>
  Lines 383 to 400: the loop that integrates the samples older than the correction
  time into the optimisation preintegrator and pops them. It works on
  \<^verbatim>\<open>lastImuT_opt\<close>, \<^verbatim>\<open>imuIntegratorOpt_\<close> and \<^verbatim>\<open>imuQueOpt\<close>; a sample is popped
  after its integration has returned.
\<close>

fun integrateQueOpt ::
  "real \<Rightarrow> real \<Rightarrow> Preintegrated \<Rightarrow> Imu list \<Rightarrow> error + (real \<times> Preintegrated \<times> Imu list)" where
  "integrateQueOpt t lastT p [] = Inr (lastT, p, [])"
| "integrateQueOpt t lastT p (thisImu # q) =
     (let imuTime = stamp thisImu in
      if imuTime < t - delta_t then
        (let dt = (if lastT < 0 then 1 / 500 else imuTime - lastT) in
         case integrateMeasurement (linear_acceleration thisImu) (angular_velocity thisImu) dt p of
           Inl e \<Rightarrow> Inl e
         | Inr p' \<Rightarrow> integrateQueOpt t imuTime p' q)
      else Inr (lastT, p, thisImu # q))"

text \<open>
  Lines 401 to 429: the factors of the new keyframe, the two smoother updates, the
  read-back of the estimate and the reset of the optimisation preintegrator.
\<close>

definition optimizeKeyframe :: "Deps \<Rightarrow> Pose3 \<Rightarrow> bool \<Rightarrow> State \<Rightarrow> State" where
  "optimizeKeyframe d lidarPose degenerate s0 =
     (let s = s0;
          preint_imu = imuIntegratorOpt s;
          imu_factor = ImuFactor (X (key s - 1)) (V (key s - 1)) (X (key s)) (V (key s))
                                 (B (key s - 1)) preint_imu;
          s = s\<lparr>graphFactors := graphFactors s @ [imu_factor]\<rparr>;
          s = s\<lparr>graphFactors := graphFactors s @
                [BetweenFactor_Bias (B (key s - 1)) (B (key s)) ConstantBias_zero
                   (Diagonal_Sigmas (map (\<lambda>n. sqrt (deltaTij (imuIntegratorOpt s)) * n)
                                         (noiseModelBetweenBias d)))]\<rparr>;
          curPose = compose lidarPose (lidar2Imu d);
          pose_factor = PriorFactor_Pose3 (X (key s)) curPose
                          (if degenerate then correctionNoise2 else correctionNoise);
          s = s\<lparr>graphFactors := graphFactors s @ [pose_factor]\<rparr>;
          propState = predict d (imuIntegratorOpt s) (prevState s) (prevBias s);
          s = s\<lparr>graphValues := graphValues s @ [(X (key s), Pose3_value (pose propState))]\<rparr>;
          s = s\<lparr>graphValues := graphValues s @ [(V (key s), Vector3_value (velocity propState))]\<rparr>;
          s = s\<lparr>graphValues := graphValues s @ [(B (key s), Bias_value (prevBias s))]\<rparr>;
          s = s\<lparr>optimizer := ISAM2_update (graphFactors s) (graphValues s) (optimizer s)\<rparr>;
          s = s\<lparr>optimizer := ISAM2_update [] [] (optimizer s)\<rparr>;
          s = s\<lparr>graphFactors := [], graphValues := []\<rparr>;
          s = s\<lparr>prevPose := estimatePose3 d (optimizer s) (X (key s))\<rparr>;
          s = s\<lparr>prevVel := estimateVector3 d (optimizer s) (V (key s))\<rparr>;
          s = s\<lparr>prevState := \<lparr>pose = prevPose s, velocity = prevVel s\<rparr>\<rparr>;
          s = s\<lparr>prevBias := estimateBias d (optimizer s) (B (key s))\<rparr>
      in s\<lparr>imuIntegratorOpt := resetIntegrationAndSetBias (prevBias s) (imuIntegratorOpt s)\<rparr>)"

text \<open>
  Lines 441 to 446: the loop that pops the samples older than the correction time
  from \<^verbatim>\<open>imuQueImu\<close>; it returns \<^verbatim>\<open>lastImuQT\<close> and the queue that is left.
\<close>

fun popOldImuQ :: "real \<Rightarrow> real \<Rightarrow> Imu list \<Rightarrow> real \<times> Imu list" where
  "popOldImuQ t lastImuQT [] = (lastImuQT, [])"
| "popOldImuQ t lastImuQT (m # q) =
     (if stamp m < t - delta_t then popOldImuQ t (stamp m) q else (lastImuQT, m # q))"

text \<open>
  Lines 453 to 462: the \<^verbatim>\<open>for\<close> loop over the samples of \<^verbatim>\<open>imuQueImu\<close>, which
  stay in the queue.
\<close>

fun reintegrate :: "real \<Rightarrow> Preintegrated \<Rightarrow> Imu list \<Rightarrow> error + Preintegrated" where
  "reintegrate lastImuQT p [] = Inr p"
| "reintegrate lastImuQT p (thisImu # q) =
     (let imuTime = stamp thisImu;
          dt = (if lastImuQT < 0 then 1 / 500 else imuTime - lastImuQT) in
      case integrateMeasurement (linear_acceleration thisImu) (angular_velocity thisImu) dt p of
        Inl e \<Rightarrow> Inl e
      | Inr p' \<Rightarrow> reintegrate imuTime p' q)"

text \<open>Lines 437 to 466: the hand-off to the forward propagation.\<close>

definition repropagate :: "real \<Rightarrow> State \<Rightarrow> error + State" where
  "repropagate currentCorrectionTime s0 =
     (let s = s0\<lparr>prevStateOdom := prevState s0\<rparr>;
          s = s\<lparr>prevBiasOdom := prevBias s\<rparr>;
          (lastImuQT, q) = popOldImuQ currentCorrectionTime (- 1) (imuQueImu s);
          s = s\<lparr>imuQueImu := q\<rparr>
      in if imuQueImu s \<noteq> [] then
           (case reintegrate lastImuQT
                   (resetIntegrationAndSetBias (prevBiasOdom s) (imuIntegratorImu s)) (imuQueImu s) of
              Inl e \<Rightarrow> Inl e
            | Inr p \<Rightarrow> Inr (s\<lparr>imuIntegratorImu := p, key := key s + 1, doneFirstOpt := True\<rparr>))
         else Inr (s\<lparr>key := key s + 1, doneFirstOpt := True\<rparr>))"

text \<open>
  Lines 383 to 429 as one step on the state: the integration loop, then the
  optimisation of the new keyframe.
\<close>

definition integrateAndOptimize :: "Deps \<Rightarrow> real \<Rightarrow> Pose3 \<Rightarrow> bool \<Rightarrow> State \<Rightarrow> error + State" where
  "integrateAndOptimize d currentCorrectionTime lidarPose degenerate s1 =
     (case integrateQueOpt currentCorrectionTime (lastImuT_opt s1) (imuIntegratorOpt s1)
             (imuQueOpt s1) of
        Inl e \<Rightarrow> Inl e
      | Inr (lastT, p, q) \<Rightarrow>
          Inr (optimizeKeyframe d lidarPose degenerate
                 (s1\<lparr>lastImuT_opt := lastT, imuIntegratorOpt := p, imuQueOpt := q\<rparr>)))"

text \<open>
  Lines 297 to 305: the locals \<^verbatim>\<open>degenerate\<close> and \<^verbatim>\<open>lidarPose\<close>. The seven
  locals \<^verbatim>\<open>p_x\<close> to \<^verbatim>\<open>r_w\<close> are \<^verbatim>\<open>float\<close>: the position and the orientation of
  the message are narrowed before the pose is built from them.
\<close>

definition degenerate_of :: "Odometry \<Rightarrow> bool" where
  "degenerate_of odomMsg = (if int_of_double (covariance odomMsg ! 0) = 1 then True else False)"

definition lidarPose_of :: "Odometry \<Rightarrow> Pose3" where
  "lidarPose_of odomMsg =
     (let p_x = float_of_double (vx (position odomMsg));
          p_y = float_of_double (vy (position odomMsg));
          p_z = float_of_double (vz (position odomMsg));
          r_x = float_of_double (qx (odom_orientation odomMsg));
          r_y = float_of_double (qy (odom_orientation odomMsg));
          r_z = float_of_double (qz (odom_orientation odomMsg));
          r_w = float_of_double (qw (odom_orientation odomMsg))
      in Pose3 (Rot3_Quaternion r_w r_x r_y r_z) (Vector3 p_x p_y p_z))"

text \<open>Lines 287 to 467.\<close>

definition odometryHandler :: "Deps \<Rightarrow> Odometry \<Rightarrow> State \<Rightarrow> error + State" where
  "odometryHandler d odomMsg s =
     (let currentCorrectionTime = odom_stamp odomMsg in
      if imuQueOpt s = [] then Inr s
      else
        let degenerate = degenerate_of odomMsg;
            lidarPose = lidarPose_of odomMsg
        in
          if systemInitialized s = False
          then Inr (initializeSystem d currentCorrectionTime lidarPose s)
          else
            let s1 = (if key s = 100 then resetGraph d s else s) in
            case integrateAndOptimize d currentCorrectionTime lidarPose degenerate s1 of
              Inl e \<Rightarrow> Inl e
            | Inr s3 \<Rightarrow>
                if failureDetection (prevVel s3) (prevBias s3) then Inr (resetParams s3)
                else repropagate currentCorrectionTime s3)"

subsection \<open>\<^verbatim>\<open>imuHandler\<close>\<close>

text \<open>Lines 493 to 544.\<close>

definition imuHandler :: "Deps \<Rightarrow> Imu \<Rightarrow> State \<Rightarrow> error + State" where
  "imuHandler d imu_raw s0 =
     (let thisImu = imuConverter d imu_raw;
          s = s0\<lparr>imuQueOpt := imuQueOpt s0 @ [thisImu]\<rparr>;
          s = s\<lparr>imuQueImu := imuQueImu s @ [thisImu]\<rparr>
      in if doneFirstOpt s = False then Inr s
         else
           let imuTime = stamp thisImu;
               dt = (if lastImuT_imu s < 0 then 1 / 500 else imuTime - lastImuT_imu s);
               s = s\<lparr>lastImuT_imu := imuTime\<rparr>
           in case integrateMeasurement (linear_acceleration thisImu) (angular_velocity thisImu) dt
                     (imuIntegratorImu s) of
                Inl e \<Rightarrow> Inl e
              | Inr p \<Rightarrow>
                  let s = s\<lparr>imuIntegratorImu := p\<rparr>;
                      currentState = predict d (imuIntegratorImu s) (prevStateOdom s) (prevBiasOdom s);
                      imuPose = Pose3 (Rot3_of (toQuaternion d (rotation (pose currentState))))
                                      (translation (pose currentState));
                      lidarPose = compose imuPose (imu2Lidar d);
                      odometry =
                        \<lparr>odom_stamp = stamp thisImu,
                         frame_id = odometryFrame d,
                         child_frame_id = ''odom_imu'',
                         position = translation lidarPose,
                         odom_orientation = toQuaternion d (rotation lidarPose),
                         covariance = replicate 36 0,
                         twist_linear = velocity currentState,
                         twist_angular =
                           Vector3 (vx (angular_velocity thisImu) + vx (gyroscope (prevBiasOdom s)))
                                   (vy (angular_velocity thisImu) + vy (gyroscope (prevBiasOdom s)))
                                   (vz (angular_velocity thisImu) + vz (gyroscope (prevBiasOdom s)))\<rparr>
                  in Inr (s\<lparr>pubImuOdometry := pubImuOdometry s @ [odometry]\<rparr>))"

subsection \<open>The node\<close>

text \<open>
  The spinner of \<^verbatim>\<open>main\<close> delivers the messages of the two subscriptions to the
  handlers; the mutex serialises the calls. A run is the sequence of messages in the
  order the handlers take the lock, and it ends at the first handler that fails.
\<close>

datatype Event = ImuEvent Imu | OdomEvent Odometry

fun handleEvent :: "Deps \<Rightarrow> Event \<Rightarrow> State \<Rightarrow> error + State" where
  "handleEvent d (ImuEvent m) s = imuHandler d m s"
| "handleEvent d (OdomEvent m) s = odometryHandler d m s"

fun run :: "Deps \<Rightarrow> Event list \<Rightarrow> State \<Rightarrow> error + State" where
  "run d [] s = Inr s"
| "run d (e # es) s = (case handleEvent d e s of Inl err \<Rightarrow> Inl err | Inr s' \<Rightarrow> run d es s')"

subsection \<open>What a pass sends to the smoother and to the forward preintegrator\<close>

text \<open>
  Lines 403 to 416 as a value: the factors and the values of the first smoother
  update of a keyframe, for the preintegrator \<open>p\<close> that the integration loop has
  left.
\<close>

definition keyframeUpdate ::
  "Deps \<Rightarrow> Pose3 \<Rightarrow> bool \<Rightarrow> State \<Rightarrow> Preintegrated \<Rightarrow> NonlinearFactorGraph \<times> Values" where
  "keyframeUpdate d lidarPose degenerate s p =
     (graphFactors s @
        [ImuFactor (X (key s - 1)) (V (key s - 1)) (X (key s)) (V (key s)) (B (key s - 1)) p,
         BetweenFactor_Bias (B (key s - 1)) (B (key s)) ConstantBias_zero
           (Diagonal_Sigmas (map (\<lambda>n. sqrt (deltaTij p) * n) (noiseModelBetweenBias d))),
         PriorFactor_Pose3 (X (key s)) (compose lidarPose (lidar2Imu d))
           (if degenerate then correctionNoise2 else correctionNoise)],
      graphValues s @
        [(X (key s), Pose3_value (pose (predict d p (prevState s) (prevBias s)))),
         (V (key s), Vector3_value (velocity (predict d p (prevState s) (prevBias s)))),
         (B (key s), Bias_value (prevBias s))])"

text \<open>
  Lines 441 to 462 as values: the time of the last sample popped from \<^verbatim>\<open>imuQueImu\<close>
  (\<^verbatim>\<open>lastImuQT\<close>, -1 when none was popped), and the samples that the \<^verbatim>\<open>for\<close> loop
  hands to the forward preintegrator, each with its time step.
\<close>

definition lastPopped :: "real \<Rightarrow> Imu list \<Rightarrow> real" where
  "lastPopped t q =
     (if takeWhile (\<lambda>m. stamp m < t) q = [] then - 1
      else stamp (last (takeWhile (\<lambda>m. stamp m < t) q)))"

definition reintegrated :: "real \<Rightarrow> Imu list \<Rightarrow> (Vector3 \<times> Vector3 \<times> real) list" where
  "reintegrated lastImuQT q =
     map (\<lambda>(m, prev). (linear_acceleration m, angular_velocity m,
                        if prev < 0 then 1 / 500 else stamp m - prev))
         (zip q (lastImuQT # map stamp q))"

subsection \<open>A concrete configuration\<close>

text \<open>
  Inputs on which the theorems below are instantiated: a configuration with no
  extrinsic translation whose smoother returns the identity pose, zero velocity and
  zero bias; a variant whose smoother returns a velocity of 40 m/s; a sample and a
  lidar pose at a given time; and an initialised object holding one sample. The
  further variants change one field each.
\<close>

definition exampleDeps :: Deps where
  "exampleDeps =
     \<lparr>extTrans = Vector3 0 0 0, odometryFrame = ''odom'', imuAccBiasN = 0, imuGyrBiasN = 0,
      imuConverter = (\<lambda>m. m),
      predict = (\<lambda>p st b. st),
      marginalCovariance = (\<lambda>opt k. []),
      estimatePose3 = (\<lambda>opt k. Pose3_identity),
      estimateVector3 = (\<lambda>opt k. Vector3 0 0 0),
      estimateBias = (\<lambda>opt k. ConstantBias_zero),
      toQuaternion = (\<lambda>r. Quaternion 1 0 0 0)\<rparr>"

definition failingDeps :: Deps where
  "failingDeps = exampleDeps\<lparr>estimateVector3 := (\<lambda>opt k. Vector3 40 0 0)\<rparr>"

definition imuAt :: "real \<Rightarrow> Imu" where
  "imuAt t = \<lparr>stamp = t, linear_acceleration = Vector3 0 0 (981 / 100),
              angular_velocity = Vector3 0 0 0, orientation = Quaternion 1 0 0 0\<rparr>"

definition odomAt :: "real \<Rightarrow> Odometry" where
  "odomAt t = \<lparr>odom_stamp = t, frame_id = ''odom'', child_frame_id = [],
               position = Vector3 0 0 0, odom_orientation = Quaternion 1 0 0 0,
               covariance = replicate 36 0,
               twist_linear = Vector3 0 0 0, twist_angular = Vector3 0 0 0\<rparr>"

definition readyState :: State where
  "readyState =
     initialState\<lparr>systemInitialized := True, imuQueOpt := [imuAt 1], imuQueImu := [imuAt 1]\<rparr>"

definition nearBoundDeps :: Deps where
  "nearBoundDeps = exampleDeps\<lparr>estimateVector3 := (\<lambda>opt k. Vector3 (30 + 1 / 2 ^ 30) 0 0)\<rparr>"

definition biasedDeps :: Deps where
  "biasedDeps = exampleDeps\<lparr>predict := (\<lambda>p st b. st\<lparr>velocity := Vector3 1 2 3\<rparr>)\<rparr>"

definition biasDeps :: Deps where
  "biasDeps = exampleDeps\<lparr>estimateBias :=
     (\<lambda>opt k. \<lparr>accelerometer = Vector3 (1/10) 0 0, gyroscope = Vector3 0 0 0\<rparr>)\<rparr>"

definition offsetDeps :: Deps where
  "offsetDeps = exampleDeps\<lparr>extTrans := Vector3 1 2 3\<rparr>"

definition turnedOdomAt :: "real \<Rightarrow> real \<Rightarrow> Odometry" where
  "turnedOdomAt t c =
     (odomAt t)\<lparr>position := Vector3 5 6 7, odom_orientation := Quaternion 0 0 0 1,
                covariance := c # replicate 35 0\<rparr>"

definition fineOdomAt :: "real \<Rightarrow> Odometry" where
  "fineOdomAt t = (odomAt t)\<lparr>position := Vector3 (1 + 1 / 2 ^ 30) 0 0\<rparr>"

definition seededState :: State where
  "seededState = readyState\<lparr>doneFirstOpt := True,
     prevBiasOdom := \<lparr>accelerometer = Vector3 0 0 0, gyroscope = Vector3 (1/10) (2/10) (3/10)\<rparr>\<rparr>"

definition quarterTurn :: Pose3 where
  "quarterTurn = Pose3 (Rot3M 0 (- 1) 0 1 0 0 0 0 1) (Vector3 5 6 7)"

section \<open>Properties\<close>

subsection \<open>The loops and the steps of \<^verbatim>\<open>odometryHandler\<close>\<close>

lemma popOldImu_eq:
  "popOldImu t lastT q = (if takeWhile (\<lambda>m. stamp m < t) q = [] then lastT else stamp (last (takeWhile (\<lambda>m. stamp m < t) q)), dropWhile (\<lambda>m. stamp m < t) q)"
  by (induction q arbitrary: lastT) (auto simp: delta_t_def)

lemma popOldImuQ_eq:
  "popOldImuQ t lastT q = (if takeWhile (\<lambda>m. stamp m < t) q = [] then lastT else stamp (last (takeWhile (\<lambda>m. stamp m < t) q)), dropWhile (\<lambda>m. stamp m < t) q)"
  by (induction q arbitrary: lastT) (auto simp: delta_t_def)

lemma integrateQueOpt_queue:
  "integrateQueOpt t lastT p q = Inr (lastT', p', q') \<Longrightarrow> q' = dropWhile (\<lambda>m. stamp m < t) q"
  by (induction q arbitrary: lastT p) (auto simp: delta_t_def Let_def split: if_splits sum.splits)

lemma sorted_dropWhile_stamp:
  "sorted (map stamp q) \<Longrightarrow> m \<in> set (dropWhile (\<lambda>m. stamp m < t) q) \<Longrightarrow> \<not> stamp m < (t::real)"
  by (induction q) (auto split: if_splits)

lemma optimizeKeyframe_frame:
  "imuQueOpt (optimizeKeyframe d lp dg s) = imuQueOpt s"
  "imuQueImu (optimizeKeyframe d lp dg s) = imuQueImu s"
  "imuIntegratorImu (optimizeKeyframe d lp dg s) = imuIntegratorImu s"
  "prevStateOdom (optimizeKeyframe d lp dg s) = prevStateOdom s"
  "prevBiasOdom (optimizeKeyframe d lp dg s) = prevBiasOdom s"
  "key (optimizeKeyframe d lp dg s) = key s"
  "doneFirstOpt (optimizeKeyframe d lp dg s) = doneFirstOpt s"
  "lastImuT_imu (optimizeKeyframe d lp dg s) = lastImuT_imu s"
  "lastImuT_opt (optimizeKeyframe d lp dg s) = lastImuT_opt s"
  "systemInitialized (optimizeKeyframe d lp dg s) = systemInitialized s"
  "pubImuOdometry (optimizeKeyframe d lp dg s) = pubImuOdometry s"
  by (simp_all add: optimizeKeyframe_def Let_def)

lemma resetGraph_frame:
  "imuQueOpt (resetGraph d s) = imuQueOpt s"
  "imuQueImu (resetGraph d s) = imuQueImu s"
  "imuIntegratorImu (resetGraph d s) = imuIntegratorImu s"
  "imuIntegratorOpt (resetGraph d s) = imuIntegratorOpt s"
  "prevStateOdom (resetGraph d s) = prevStateOdom s"
  "prevBiasOdom (resetGraph d s) = prevBiasOdom s"
  "prevState (resetGraph d s) = prevState s"
  "prevBias (resetGraph d s) = prevBias s"
  "prevPose (resetGraph d s) = prevPose s"
  "prevVel (resetGraph d s) = prevVel s"
  "key (resetGraph d s) = 1"
  "doneFirstOpt (resetGraph d s) = doneFirstOpt s"
  "lastImuT_imu (resetGraph d s) = lastImuT_imu s"
  "lastImuT_opt (resetGraph d s) = lastImuT_opt s"
  "systemInitialized (resetGraph d s) = systemInitialized s"
  "pubImuOdometry (resetGraph d s) = pubImuOdometry s"
  by (simp_all add: resetGraph_def resetOptimization_def Let_def)

lemma integrateAndOptimize_frame:
  assumes "integrateAndOptimize d t lp dg s = Inr s3"
  shows "imuQueOpt s3 = dropWhile (\<lambda>m. stamp m < t) (imuQueOpt s)"
    and "imuQueImu s3 = imuQueImu s"
    and "imuIntegratorImu s3 = imuIntegratorImu s"
    and "prevStateOdom s3 = prevStateOdom s"
    and "prevBiasOdom s3 = prevBiasOdom s"
    and "key s3 = key s"
    and "doneFirstOpt s3 = doneFirstOpt s"
    and "lastImuT_imu s3 = lastImuT_imu s"
    and "systemInitialized s3 = systemInitialized s"
    and "pubImuOdometry s3 = pubImuOdometry s"
  using assms
  by (auto simp: integrateAndOptimize_def optimizeKeyframe_frame
      dest: integrateQueOpt_queue split: sum.splits prod.splits)

lemma repropagate_eq:
  "repropagate t s3 =
     (let old = takeWhile (\<lambda>m. stamp m < t) (imuQueImu s3);
          q = dropWhile (\<lambda>m. stamp m < t) (imuQueImu s3);
          s = s3\<lparr>prevStateOdom := prevState s3, prevBiasOdom := prevBias s3, imuQueImu := q\<rparr>
      in if q \<noteq> [] then
           (case reintegrate (if old = [] then - 1 else stamp (last old))
                   \<lparr>biasHat = prevBias s3, measurements = []\<rparr> q of
              Inl e \<Rightarrow> Inl e
            | Inr p \<Rightarrow> Inr (s\<lparr>imuIntegratorImu := p, key := key s3 + 1, doneFirstOpt := True\<rparr>))
         else Inr (s\<lparr>key := key s3 + 1, doneFirstOpt := True\<rparr>))"
  by (simp add: repropagate_def popOldImuQ_eq Let_def resetIntegrationAndSetBias_def cong: sum.case_cong)

lemma repropagate_frame:
  assumes "repropagate t s3 = Inr s'"
  shows "imuQueOpt s' = imuQueOpt s3"
    and "prevVel s' = prevVel s3"
    and "prevBias s' = prevBias s3"
    and "prevState s' = prevState s3"
    and "doneFirstOpt s'"
    and "key s' = key s3 + 1"
    and "lastImuT_imu s' = lastImuT_imu s3"
    and "systemInitialized s' = systemInitialized s3"
    and "optimizer s' = optimizer s3"
    and "imuIntegratorOpt s' = imuIntegratorOpt s3"
    and "pubImuOdometry s' = pubImuOdometry s3"
    and "prevStateOdom s' = prevState s3"
    and "prevBiasOdom s' = prevBias s3"
    and "imuQueImu s' = dropWhile (\<lambda>m. stamp m < t) (imuQueImu s3)"
proof -
  define q where "q = dropWhile (\<lambda>m. stamp m < t) (imuQueImu s3)"
  define old where "old = takeWhile (\<lambda>m. stamp m < t) (imuQueImu s3)"
  have eq: "repropagate t s3 =
     (let s = s3\<lparr>prevStateOdom := prevState s3, prevBiasOdom := prevBias s3, imuQueImu := q\<rparr>
      in if q \<noteq> [] then
           (case reintegrate (if old = [] then - 1 else stamp (last old))
                   \<lparr>biasHat = prevBias s3, measurements = []\<rparr> q of
              Inl e \<Rightarrow> Inl e
            | Inr p \<Rightarrow> Inr (s\<lparr>imuIntegratorImu := p, key := key s3 + 1, doneFirstOpt := True\<rparr>))
         else Inr (s\<lparr>key := key s3 + 1, doneFirstOpt := True\<rparr>))"
    unfolding repropagate_eq q_def old_def Let_def ..
  have "imuQueOpt s' = imuQueOpt s3 \<and> prevVel s' = prevVel s3 \<and> prevBias s' = prevBias s3
      \<and> prevState s' = prevState s3 \<and> doneFirstOpt s' \<and> key s' = key s3 + 1
      \<and> lastImuT_imu s' = lastImuT_imu s3 \<and> systemInitialized s' = systemInitialized s3
      \<and> optimizer s' = optimizer s3 \<and> imuIntegratorOpt s' = imuIntegratorOpt s3
      \<and> pubImuOdometry s' = pubImuOdometry s3 \<and> prevStateOdom s' = prevState s3
      \<and> prevBiasOdom s' = prevBias s3 \<and> imuQueImu s' = q"
    using assms unfolding eq Let_def
    by (cases "q = []") (auto split: sum.splits)
  then show "imuQueOpt s' = imuQueOpt s3"
    and "prevVel s' = prevVel s3"
    and "prevBias s' = prevBias s3"
    and "prevState s' = prevState s3"
    and "doneFirstOpt s'"
    and "key s' = key s3 + 1"
    and "lastImuT_imu s' = lastImuT_imu s3"
    and "systemInitialized s' = systemInitialized s3"
    and "optimizer s' = optimizer s3"
    and "imuIntegratorOpt s' = imuIntegratorOpt s3"
    and "pubImuOdometry s' = pubImuOdometry s3"
    and "prevStateOdom s' = prevState s3"
    and "prevBiasOdom s' = prevBias s3"
    and "imuQueImu s' = dropWhile (\<lambda>m. stamp m < t) (imuQueImu s3)"
    by (simp_all add: q_def)
qed

text \<open>The normal path of \<^verbatim>\<open>odometryHandler\<close>, split into its two outcomes.\<close>

lemma odometryHandler_normal:
  assumes "systemInitialized s" "imuQueOpt s \<noteq> []" "odometryHandler d msg s = Inr s'"
  obtains s3 where
    "integrateAndOptimize d (odom_stamp msg) (lidarPose_of msg) (degenerate_of msg)
       (if key s = 100 then resetGraph d s else s) = Inr s3"
    "failureDetection (prevVel s3) (prevBias s3) \<Longrightarrow> s' = resetParams s3"
    "\<not> failureDetection (prevVel s3) (prevBias s3) \<Longrightarrow> repropagate (odom_stamp msg) s3 = Inr s'"
proof (cases "integrateAndOptimize d (odom_stamp msg) (lidarPose_of msg) (degenerate_of msg)
       (if key s = 100 then resetGraph d s else s)")
  case (Inl e)
  with assms show ?thesis by (simp add: odometryHandler_def Let_def)
next
  case (Inr s3)
  with assms that [of s3] show ?thesis
    by (cases "failureDetection (prevVel s3) (prevBias s3)") (simp_all add: odometryHandler_def Let_def)
qed

lemma odometryHandler_prev:
  assumes "systemInitialized s" "imuQueOpt s \<noteq> []" "odometryHandler d msg s = Inr s'"
    "integrateAndOptimize d (odom_stamp msg) (lidarPose_of msg) (degenerate_of msg)
       (if key s = 100 then resetGraph d s else s) = Inr s3"
  shows "prevVel s' = prevVel s3" "prevBias s' = prevBias s3"
proof -
  obtain s3' where *: "integrateAndOptimize d (odom_stamp msg) (lidarPose_of msg) (degenerate_of msg)
       (if key s = 100 then resetGraph d s else s) = Inr s3'"
    "failureDetection (prevVel s3') (prevBias s3') \<Longrightarrow> s' = resetParams s3'"
    "\<not> failureDetection (prevVel s3') (prevBias s3') \<Longrightarrow> repropagate (odom_stamp msg) s3' = Inr s'"
    using odometryHandler_normal [OF assms(1-3)] by blast
  with assms(4) have [simp]: "s3' = s3" by simp
  show "prevVel s' = prevVel s3" "prevBias s' = prevBias s3"
    using *(2,3) repropagate_frame(2,3) [of "odom_stamp msg" s3 s']
    by (cases "failureDetection (prevVel s3) (prevBias s3)"; simp add: resetParams_def)+
qed


subsection \<open>Single precision\<close>

text \<open>
  The exponent that \<open>float_exponent\<close> computes is the binary exponent, and
  \<open>float_of_double\<close> is within half a unit in the last place of its argument.
\<close>

lemma float_exponent_bounds:
  assumes "0 < a"
  shows "pow2 (float_exponent a) \<le> a \<and> a < pow2 (float_exponent a + 1)"
proof (cases "1 \<le> a")
  case True
  define n where "n = \<lfloor>a\<rfloor>"
  from True have n: "0 < n" by (simp add: n_def)
  from bitlen_bounds [OF n] have lo: "2 ^ nat (bitlen n - 1) \<le> n" and hi: "n < 2 ^ nat (bitlen n)"
    by simp_all
  from n have b: "1 \<le> bitlen n" using bitlen_eq_zero_iff [of n] bitlen_nonneg [of n] by linarith
  have e: "float_exponent a = bitlen n - 1" using True by (simp add: float_exponent_def n_def)
  have "(of_int (2 ^ nat (bitlen n - 1)) :: real) \<le> of_int n" using lo by (simp only: of_int_le_iff)
  moreover have "(of_int (2 ^ nat (bitlen n - 1)) :: real) = 2 ^ nat (bitlen n - 1)" by simp
  moreover have "of_int n \<le> a" by (simp add: n_def)
  ultimately have "2 ^ nat (bitlen n - 1) \<le> a" by linarith
  then have 1: "pow2 (float_exponent a) \<le> a" using b by (simp add: e pow2_def)
  from hi have "n + 1 \<le> 2 ^ nat (bitlen n)" by simp
  then have "(of_int (n + 1) :: real) \<le> of_int (2 ^ nat (bitlen n))" by (simp only: of_int_le_iff)
  moreover have "(of_int (2 ^ nat (bitlen n)) :: real) = 2 ^ nat (bitlen n)" by simp
  moreover have "a < of_int (n + 1)" by (simp add: n_def)
  ultimately have "a < 2 ^ nat (bitlen n)" by linarith
  then have 2: "a < pow2 (float_exponent a + 1)" using b by (simp add: e pow2_def)
  from 1 2 show ?thesis by simp
next
  case False
  with assms have a: "0 < a" "a < 1" by simp_all
  define N where "N = \<lceil>1 / a\<rceil>"
  define k where "k = bitlen (N - 1)"
  from a have "1 < 1 / a" by simp
  then have N2: "2 \<le> N" unfolding N_def by linarith
  then have pos: "0 < N - 1" by simp
  from bitlen_bounds [OF pos] have lo: "2 ^ nat (k - 1) \<le> N - 1" and hi: "N - 1 < 2 ^ nat k"
    by (simp_all add: k_def)
  from pos have k1: "1 \<le> k" using bitlen_eq_zero_iff [of "N - 1"] bitlen_nonneg [of "N - 1"]
    unfolding k_def by linarith
  have e: "float_exponent a = - k" using False by (simp add: float_exponent_def N_def k_def)
  from hi have "N \<le> 2 ^ nat k" by simp
  then have "(of_int N :: real) \<le> of_int (2 ^ nat k)" by (simp only: of_int_le_iff)
  moreover have "(of_int (2 ^ nat k) :: real) = 2 ^ nat k" by simp
  moreover have "1 / a \<le> of_int N" by (simp add: N_def)
  ultimately have "1 / a \<le> 2 ^ nat k" by linarith
  with a have "1 \<le> a * 2 ^ nat k" by (simp add: field_simps)
  then have "1 / 2 ^ nat k \<le> a" by (simp add: field_simps)
  then have 1: "pow2 (float_exponent a) \<le> a" using k1 by (simp add: e pow2_def)
  have "(of_int (2 ^ nat (k - 1)) :: real) \<le> of_int (N - 1)" using lo by (simp only: of_int_le_iff)
  moreover have "(of_int (2 ^ nat (k - 1)) :: real) = 2 ^ nat (k - 1)" by simp
  moreover have "of_int (N - 1) < 1 / a" unfolding N_def by linarith
  ultimately have "2 ^ nat (k - 1) < 1 / a" by linarith
  with a have "a * 2 ^ nat (k - 1) < 1" by (simp add: field_simps)
  then have lt: "a < 1 / 2 ^ nat (k - 1)" by (simp add: field_simps)
  have 2: "a < pow2 (float_exponent a + 1)"
  proof (cases "k = 1")
    case True
    with a show ?thesis by (simp add: e pow2_def)
  next
    case False
    with k1 have n: "- k + 1 < 0" "nat (- (- k + 1)) = nat (k - 1)" by simp_all
    have "pow2 (- k + 1) = 1 / 2 ^ nat (k - 1)"
      unfolding pow2_def using n by simp
    with lt show ?thesis by (simp only: e)
  qed
  from 1 2 show ?thesis by simp
qed

lemma round_half_even_error: "\<bar>of_int (round_half_even r) - r\<bar> \<le> 1 / 2"
proof -
  have "of_int \<lfloor>r\<rfloor> \<le> r" "r < of_int \<lfloor>r\<rfloor> + 1" by linarith+
  then show ?thesis
    unfolding round_half_even_def Let_def by (simp add: abs_le_iff) linarith?
qed


lemma pow2_pos: "0 < pow2 e"
  by (simp add: pow2_def)

lemma float_of_double_error:
  "\<bar>float_of_double a - a\<bar> \<le> pow2 (max (float_exponent \<bar>a\<bar>) (- 126) - 23) / 2"
proof (cases "a = 0")
  case True
  then show ?thesis using pow2_pos [of "max (float_exponent \<bar>a\<bar>) (- 126) - 23"]
    by (simp add: float_of_double_def)
next
  case False
  define u where "u = pow2 (max (float_exponent \<bar>a\<bar>) (- 126) - 23)"
  define r where "r = \<bar>a\<bar> / u"
  have u: "0 < u" by (simp add: u_def pow2_pos)
  then have a: "\<bar>a\<bar> = r * u" by (simp add: r_def)
  have fl: "float_of_double a = sgn a * of_int (round_half_even r) * u"
    using False by (simp add: float_of_double_def Let_def u_def r_def)
  have "a = sgn a * (r * u)" using a by (simp add: sgn_mult_abs flip: a)
  then have "float_of_double a - a = sgn a * ((of_int (round_half_even r) - r) * u)"
    by (simp add: fl algebra_simps)
  then have "\<bar>float_of_double a - a\<bar> = \<bar>of_int (round_half_even r) - r\<bar> * u"
    using False u by (simp add: abs_mult abs_sgn_eq)
  also have "\<dots> \<le> (1 / 2) * u"
    using round_half_even_error [of r] u by (intro mult_right_mono) simp_all
  finally show ?thesis by (simp add: u_def)
qed

subsection \<open>Evaluation\<close>

lemma norm3_gt_iff:
  "0 \<le> c \<Longrightarrow> (norm3 a > c) = (vx a * vx a + vy a * vy a + vz a * vz a > c * c)"
  unfolding norm3_def
  by (metis real_sqrt_less_iff real_sqrt_abs2 abs_of_nonneg)

lemma failureDetection_iff:
  "failureDetection v b \<longleftrightarrow>
     norm3f (Vector3f (vx v) (vy v) (vz v)) > 30
     \<or> norm3f (Vector3f (vx (accelerometer b)) (vy (accelerometer b)) (vz (accelerometer b))) > 1
     \<or> norm3f (Vector3f (vx (gyroscope b)) (vy (gyroscope b)) (vz (gyroscope b))) > 1"
  by (simp add: failureDetection_def Let_def)

lemma bitlen_values:
  "bitlen 1 = 1" "bitlen 2 = 2" "bitlen 3 = 2" "bitlen 4 = 3" "bitlen 5 = 3" "bitlen 6 = 3"
  "bitlen 7 = 3" "bitlen 10 = 4" "bitlen 30 = 5" "bitlen 40 = 6" "bitlen 900 = 10"
  "bitlen 1600 = 11"
  by code_simp+

lemmas float_eval =
  float_of_double_def float_exponent_def pow2_def round_half_even_def bitlen_values Let_def

lemma float_of_double_values:
  "float_of_double 0 = 0" "float_of_double 1 = 1" "float_of_double 2 = 2"
  "float_of_double 3 = 3" "float_of_double 4 = 4" "float_of_double 5 = 5"
  "float_of_double 6 = 6" "float_of_double 7 = 7" "float_of_double 10 = 10"
  "float_of_double 30 = 30" "float_of_double 40 = 40" "float_of_double 900 = 900"
  "float_of_double 1600 = 1600"
  by (simp_all add: float_eval)

lemma floor_near_30: "\<lfloor>30 + 1 / 2 ^ 30 :: real\<rfloor> = 30"
  by (simp add: floor_eq_iff)

lemma floor_near_1: "\<lfloor>1 + 1 / 2 ^ 30 :: real\<rfloor> = 1"
  by (simp add: floor_eq_iff)

lemma float_of_double_near_30: "float_of_double (30 + 1 / 2 ^ 30) = 30"
  by (simp add: float_eval floor_near_30) (simp add: floor_eq_iff)?

lemma float_of_double_near_1: "float_of_double (1 + 1 / 2 ^ 30) = 1"
  by (simp add: float_eval floor_near_1) (simp add: floor_eq_iff)?

lemma sqrt_values: "sqrt 900 = 30" "sqrt 1600 = 40"
  using real_sqrt_unique [of 30 900] real_sqrt_unique [of 40 1600]
  by simp_all

lemma norm3f_values:
  "norm3f (Vector3 0 0 0) = 0" "norm3f (Vector3 30 0 0) = 30" "norm3f (Vector3 40 0 0) = 40"
  "norm3f (Vector3 1 0 0) = 1" "norm3f (Vector3 0 2 0) = 2" "norm3f (Vector3 0 0 2) = 2"
  by (simp_all add: norm3f_def fsqrt_def fadd_def fmul_def float_of_double_values sqrt_values)

text \<open>Rounding keeps a value between 0 and 1 there.\<close>

lemma round_half_even_le: "r \<le> of_int k \<Longrightarrow> round_half_even r \<le> k"
proof -
  assume le: "r \<le> of_int k"
  then have f: "\<lfloor>r\<rfloor> \<le> k" by (simp add: floor_le_iff) linarith?
  show ?thesis
  proof (cases "r - of_int \<lfloor>r\<rfloor> < 1 / 2")
    case True
    with f show ?thesis by (simp add: round_half_even_def Let_def)
  next
    case False
    then have "of_int \<lfloor>r\<rfloor> < r" by linarith
    with le have "of_int \<lfloor>r\<rfloor> < (of_int k :: real)" by linarith
    then have "\<lfloor>r\<rfloor> < k" by simp
    then have "\<lfloor>r\<rfloor> + 1 \<le> k" by simp
    with f show ?thesis by (simp add: round_half_even_def Let_def)
  qed
qed

lemma round_half_even_nonneg: "0 \<le> r \<Longrightarrow> 0 \<le> round_half_even r"
proof -
  assume "0 \<le> r"
  then have "0 \<le> \<lfloor>r\<rfloor>" by simp
  then show ?thesis by (simp add: round_half_even_def Let_def)
qed

lemma float_exponent_below_one:
  assumes "0 < a" and "a < 1"
  shows "float_exponent a \<le> - 1"
proof -
  from assms have "1 < 1 / a" by simp
  then have "2 \<le> \<lceil>1 / a\<rceil>" by linarith
  then have "0 < \<lceil>1 / a\<rceil> - 1" by simp
  then have "bitlen (\<lceil>1 / a\<rceil> - 1) \<noteq> 0" by (simp add: bitlen_eq_zero_iff)
  with bitlen_nonneg [of "\<lceil>1 / a\<rceil> - 1"] have "1 \<le> bitlen (\<lceil>1 / a\<rceil> - 1)" by linarith
  with assms show ?thesis by (simp add: float_exponent_def)
qed

lemma float_of_double_unit:
  assumes "0 \<le> a" and "a \<le> 1"
  shows "0 \<le> float_of_double a \<and> float_of_double a \<le> 1"
proof (cases "a = 0 \<or> a = 1")
  case True
  then show ?thesis by (auto simp: float_of_double_values)
next
  case False
  with assms have a: "0 < a" "a < 1" by simp_all
  define e where "e = max (float_exponent \<bar>a\<bar>) (- 126)"
  define n where "n = nat (23 - e)"
  from float_exponent_below_one [OF a] a have "e \<le> - 1" by (simp add: e_def)
  then have u: "pow2 (e - 23) = 1 / 2 ^ n" by (simp add: pow2_def n_def)
  have e': "max (float_exponent a) (- 126) = e"
    using a by (simp add: e_def)
  have fl: "float_of_double a = of_int (round_half_even (a * 2 ^ n)) / 2 ^ n"
    using a by (simp add: float_of_double_def Let_def e' u)
  have "a * 2 ^ n \<le> of_int (2 ^ n)" using a by simp
  then have "round_half_even (a * 2 ^ n) \<le> 2 ^ n" by (rule round_half_even_le)
  then have "(of_int (round_half_even (a * 2 ^ n)) :: real) \<le> of_int (2 ^ n)"
    by (simp only: of_int_le_iff)
  then have up: "float_of_double a \<le> 1" by (simp add: fl divide_le_eq)
  have "0 \<le> a * 2 ^ n" using a by simp
  then have "0 \<le> round_half_even (a * 2 ^ n)" by (rule round_half_even_nonneg)
  then have "0 \<le> float_of_double a" by (simp add: fl)
  with up show ?thesis by simp
qed

lemma norm3f_unit:
  assumes "0 \<le> a" and "a \<le> 1"
  shows "norm3f (Vector3f a 0 0) \<le> 1"
proof -
  define b where "b = float_of_double a"
  from float_of_double_unit [OF assms] have b: "0 \<le> b" "b \<le> 1" by (simp_all add: b_def)
  then have "0 \<le> b * b" "b * b \<le> 1" by (simp_all add: mult_le_one)
  from float_of_double_unit [OF this] have c: "0 \<le> fmul b b" "fmul b b \<le> 1"
    by (simp_all add: fmul_def)
  from float_of_double_unit [OF c] have d: "0 \<le> fadd (fmul b b) 0" "fadd (fmul b b) 0 \<le> 1"
    by (simp_all add: fadd_def)
  then have "0 \<le> sqrt (fadd (fmul b b) 0)" "sqrt (fadd (fmul b b) 0) \<le> 1" by simp_all
  from float_of_double_unit [OF this] have "fsqrt (fadd (fmul b b) 0) \<le> 1"
    by (simp add: fsqrt_def)
  then show ?thesis
    by (simp add: norm3f_def Vector3f_def b_def fmul_def fadd_def float_of_double_values)
qed

lemma failureDetection_values:
  "failureDetection (Vector3 0 0 0)
     \<lparr>accelerometer = Vector3 0 0 0, gyroscope = Vector3 0 0 0\<rparr> = False"
  "failureDetection (Vector3 40 0 0)
     \<lparr>accelerometer = Vector3 0 0 0, gyroscope = Vector3 0 0 0\<rparr> = True"
  "failureDetection (Vector3 0 0 0)
     \<lparr>accelerometer = Vector3 (1 / 10) 0 0, gyroscope = Vector3 0 0 0\<rparr> = False"
  "failureDetection (Vector3 (30 + 1 / 2 ^ 30) 0 0)
     \<lparr>accelerometer = Vector3 0 0 0, gyroscope = Vector3 0 0 0\<rparr> = False"
proof -
  have z: "Vector3f 0 0 0 = Vector3 0 0 0" "Vector3f 40 0 0 = Vector3 40 0 0"
    "Vector3f (30 + 1 / 2 ^ 30) 0 0 = Vector3 30 0 0"
    by (simp_all only: Vector3f_def float_of_double_values float_of_double_near_30)
  have u: "norm3f (Vector3f (1 / 10) 0 0) \<le> 1"
    by (rule norm3f_unit) simp_all
  show "failureDetection (Vector3 0 0 0)
     \<lparr>accelerometer = Vector3 0 0 0, gyroscope = Vector3 0 0 0\<rparr> = False"
    by (simp add: failureDetection_iff z norm3f_values)
  show "failureDetection (Vector3 40 0 0)
     \<lparr>accelerometer = Vector3 0 0 0, gyroscope = Vector3 0 0 0\<rparr> = True"
    by (simp add: failureDetection_iff z norm3f_values)
  show "failureDetection (Vector3 0 0 0)
     \<lparr>accelerometer = Vector3 (1 / 10) 0 0, gyroscope = Vector3 0 0 0\<rparr> = False"
    using u by (simp add: failureDetection_iff z norm3f_values)
  have "failureDetection (Vector3 (30 + 1 / 2 ^ 30) 0 0)
     \<lparr>accelerometer = Vector3 0 0 0, gyroscope = Vector3 0 0 0\<rparr>
     \<longleftrightarrow> norm3f (Vector3f (30 + 1 / 2 ^ 30) 0 0) > 30 \<or> norm3f (Vector3f 0 0 0) > 1"
    by (simp only: failureDetection_iff Vector3.sel ConstantBias.simps) simp
  then show "failureDetection (Vector3 (30 + 1 / 2 ^ 30) 0 0)
     \<lparr>accelerometer = Vector3 0 0 0, gyroscope = Vector3 0 0 0\<rparr> = False"
    by (simp only: z norm3f_values) simp
qed

lemmas model_defs =
  odometryHandler_def imuHandler_def integrateAndOptimize_def optimizeKeyframe_def
  repropagate_def resetGraph_def initializeSystem_def resetOptimization_def resetParams_def
  integrateMeasurement_def resetIntegrationAndSetBias_def degenerate_of_def lidarPose_of_def
  int_of_double_def delta_t_def ISAM2_update_def ISAM2_new_def Let_def
  failureDetection_values float_of_double_values

lemmas example_defs =
  exampleDeps_def failingDeps_def readyState_def imuAt_def odomAt_def initialState_def
  ConstantBias_zero_def Pose3_identity_def

subsection \<open>Failure detection\<close>

text \<open>
  Claim C4, amended. For every velocity \<open>v\<close> and bias \<open>b\<close>, \<^verbatim>\<open>failureDetection\<close>
  reports a failure exactly when the single-precision norm of \<open>v\<close> narrowed to
  \<^verbatim>\<open>float\<close> is above 30, or that of the accelerometer part of \<open>b\<close> is above 1, or
  that of its gyroscope part is above 1. When it reports a failure on the estimate
  read back from the smoother, \<^verbatim>\<open>odometryHandler\<close> returns the state \<^verbatim>\<open>resetParams\<close>
  makes of the optimised one: \<open>doneFirstOpt\<close> and \<open>systemInitialized\<close> are false and
  \<open>lastImuT_imu\<close> is -1. (The estimate the check has read is the \<open>prevVel\<close> and
  \<open>prevBias\<close> of the returned state.)
\<close>

theorem failureDetection_thresholds_then_resetParams:
  "(failureDetection v b \<longleftrightarrow>
      norm3f (Vector3 (float_of_double (vx v)) (float_of_double (vy v))
                (float_of_double (vz v))) > 30
      \<or> norm3f (Vector3 (float_of_double (vx (accelerometer b)))
                  (float_of_double (vy (accelerometer b)))
                  (float_of_double (vz (accelerometer b)))) > 1
      \<or> norm3f (Vector3 (float_of_double (vx (gyroscope b)))
                  (float_of_double (vy (gyroscope b)))
                  (float_of_double (vz (gyroscope b)))) > 1)
   \<and> (systemInitialized s \<and> imuQueOpt s \<noteq> [] \<and> odometryHandler d msg s = Inr s'
        \<and> failureDetection (prevVel s') (prevBias s')
      \<longrightarrow> (\<exists>s3. integrateAndOptimize d (odom_stamp msg) (lidarPose_of msg) (degenerate_of msg)
                   (if key s = 100 then resetGraph d s else s) = Inr s3
                \<and> s' = resetParams s3)
          \<and> doneFirstOpt s' = False \<and> lastImuT_imu s' = - 1 \<and> systemInitialized s' = False)"
proof (intro conjI impI)
  show "failureDetection v b \<longleftrightarrow>
      norm3f (Vector3 (float_of_double (vx v)) (float_of_double (vy v))
                (float_of_double (vz v))) > 30
      \<or> norm3f (Vector3 (float_of_double (vx (accelerometer b)))
                  (float_of_double (vy (accelerometer b)))
                  (float_of_double (vz (accelerometer b)))) > 1
      \<or> norm3f (Vector3 (float_of_double (vx (gyroscope b)))
                  (float_of_double (vy (gyroscope b)))
                  (float_of_double (vz (gyroscope b)))) > 1"
    by (simp add: failureDetection_def Vector3f_def Let_def)
next
  assume a: "systemInitialized s \<and> imuQueOpt s \<noteq> [] \<and> odometryHandler d msg s = Inr s'
        \<and> failureDetection (prevVel s') (prevBias s')"
  then obtain s3 where s3:
    "integrateAndOptimize d (odom_stamp msg) (lidarPose_of msg) (degenerate_of msg)
       (if key s = 100 then resetGraph d s else s) = Inr s3"
    "failureDetection (prevVel s3) (prevBias s3) \<Longrightarrow> s' = resetParams s3"
    using odometryHandler_normal [of s d msg s'] by blast
  from a s3(1) have "prevVel s' = prevVel s3" "prevBias s' = prevBias s3"
    using odometryHandler_prev [of s d msg s' s3] by simp_all
  with a s3(2) have r: "s' = resetParams s3" by simp
  with s3(1) show "\<exists>s3. integrateAndOptimize d (odom_stamp msg) (lidarPose_of msg)
      (degenerate_of msg) (if key s = 100 then resetGraph d s else s) = Inr s3
      \<and> s' = resetParams s3"
    by blast
  from r show "doneFirstOpt s' = False" "lastImuT_imu s' = - 1" "systemInitialized s' = False"
    by (simp_all add: resetParams_def)
qed

theorem failureDetection_thresholds_then_resetParams_witness:
  "failureDetection (Vector3 40 0 0) ConstantBias_zero
   \<and> norm3f (Vector3 (float_of_double 40) (float_of_double 0) (float_of_double 0)) = 40
   \<and> failureDetection (Vector3 30 0 0)
        \<lparr>accelerometer = Vector3 1 0 0, gyroscope = Vector3 1 0 0\<rparr> = False
   \<and> failureDetection (Vector3 0 0 0)
        \<lparr>accelerometer = Vector3 0 2 0, gyroscope = Vector3 0 0 0\<rparr>
   \<and> failureDetection (Vector3 0 0 0)
        \<lparr>accelerometer = Vector3 0 0 0, gyroscope = Vector3 0 0 2\<rparr>
   \<and> (\<exists>s'. odometryHandler failingDeps (odomAt 2) readyState = Inr s'
        \<and> systemInitialized readyState \<and> imuQueOpt readyState \<noteq> []
        \<and> failureDetection (prevVel s') (prevBias s')
        \<and> doneFirstOpt s' = False \<and> lastImuT_imu s' = - 1 \<and> systemInitialized s' = False)"
proof -
  have "\<exists>s'. odometryHandler failingDeps (odomAt 2) readyState = Inr s'
      \<and> failureDetection (prevVel s') (prevBias s')"
    by (simp add: model_defs example_defs)
  then obtain s' where h: "odometryHandler failingDeps (odomAt 2) readyState = Inr s'"
    "failureDetection (prevVel s') (prevBias s')"
    by blast
  have pre: "systemInitialized readyState" "imuQueOpt readyState \<noteq> []"
    by (simp_all add: example_defs)
  have n: "norm3f (Vector3 (float_of_double 40) (float_of_double 0) (float_of_double 0)) = 40"
    by (simp add: float_of_double_values norm3f_values)
  note inst = failureDetection_thresholds_then_resetParams
    [where v = "Vector3 40 0 0" and b = ConstantBias_zero and s = readyState
       and d = failingDeps and msg = "odomAt 2" and s' = s']
  from inst n have v: "failureDetection (Vector3 40 0 0) ConstantBias_zero"
    by simp
  from inst h pre
  have r: "doneFirstOpt s' = False \<and> lastImuT_imu s' = - 1 \<and> systemInitialized s' = False"
    by simp
  have b1: "failureDetection (Vector3 30 0 0)
        \<lparr>accelerometer = Vector3 1 0 0, gyroscope = Vector3 1 0 0\<rparr> = False"
    using failureDetection_thresholds_then_resetParams
      [where v = "Vector3 30 0 0"
         and b = "\<lparr>accelerometer = Vector3 1 0 0, gyroscope = Vector3 1 0 0\<rparr>"]
    by (simp add: float_of_double_values norm3f_values)
  have b2: "failureDetection (Vector3 0 0 0)
        \<lparr>accelerometer = Vector3 0 2 0, gyroscope = Vector3 0 0 0\<rparr>"
    using failureDetection_thresholds_then_resetParams
      [where v = "Vector3 0 0 0"
         and b = "\<lparr>accelerometer = Vector3 0 2 0, gyroscope = Vector3 0 0 0\<rparr>"]
    by (simp add: float_of_double_values norm3f_values)
  have b3: "failureDetection (Vector3 0 0 0)
        \<lparr>accelerometer = Vector3 0 0 0, gyroscope = Vector3 0 0 2\<rparr>"
    using failureDetection_thresholds_then_resetParams
      [where v = "Vector3 0 0 0"
         and b = "\<lparr>accelerometer = Vector3 0 0 0, gyroscope = Vector3 0 0 2\<rparr>"]
    by (simp add: float_of_double_values norm3f_values)
  from h pre v n r b1 b2 b3 show ?thesis by blast
qed

text \<open>
  The claim as stated, with the norm of the vector itself, fails just above a bound:
  the velocity \<open>(30 + 2^-30, 0, 0)\<close> has a norm above 30, its narrowing to \<^verbatim>\<open>float\<close>
  is \<open>(30, 0, 0)\<close>, the check reports no failure, and the handler goes on to the
  hand-off.
\<close>

theorem failureDetection_exact_norm_counterexample:
  "30 < norm3 (Vector3 (30 + 1 / 2 ^ 30) 0 0)
   \<and> failureDetection (Vector3 (30 + 1 / 2 ^ 30) 0 0) ConstantBias_zero = False
   \<and> (\<exists>s'. odometryHandler nearBoundDeps (odomAt 2) readyState = Inr s'
        \<and> prevVel s' = Vector3 (30 + 1 / 2 ^ 30) 0 0
        \<and> doneFirstOpt s' \<and> systemInitialized s')"
proof -
  have a: "30 < norm3 (Vector3 (30 + 1 / 2 ^ 30) 0 0)"
    by (simp add: norm3_gt_iff)
  have b: "failureDetection (Vector3 (30 + 1 / 2 ^ 30) 0 0) ConstantBias_zero = False"
    by (simp only: ConstantBias_zero_def failureDetection_values)
  have c: "\<exists>s'. odometryHandler nearBoundDeps (odomAt 2) readyState = Inr s'
        \<and> prevVel s' = Vector3 (30 + 1 / 2 ^ 30) 0 0
        \<and> doneFirstOpt s' \<and> systemInitialized s'"
    using failureDetection_values(4)
    by (simp add: model_defs example_defs nearBoundDeps_def)
  from a b c show ?thesis by blast
qed

subsection \<open>A failed check returns before the hand-off\<close>

text \<open>
  Claim C8. When the failure check reports a failure in \<^verbatim>\<open>odometryHandler\<close>, the handler
  returns before the hand-off: \<open>prevStateOdom\<close>, \<open>prevBiasOdom\<close>, the queue
  \<open>imuQueImu\<close> and the forward preintegrator are those of the state the call started
  from, \<open>doneFirstOpt\<close> is false, and the key counter is the one the optimisation of
  this call started with (the state that the integration loop of line 383 starts from):
  the counter on entry, or 1 when the counter on entry was 100 and the graph was reset
  first.
\<close>

theorem failure_returns_before_handoff:
  assumes "systemInitialized s" and "imuQueOpt s \<noteq> []"
    and "odometryHandler d msg s = Inr s'"
    and "failureDetection (prevVel s') (prevBias s')"
  shows "prevStateOdom s' = prevStateOdom s \<and> prevBiasOdom s' = prevBiasOdom s
       \<and> imuQueImu s' = imuQueImu s \<and> imuIntegratorImu s' = imuIntegratorImu s
       \<and> key s' = key (if key s = 100 then resetGraph d s else s)
       \<and> key s' = (if key s = 100 then 1 else key s)
       \<and> doneFirstOpt s' = False"
proof -
  let ?s1 = "if key s = 100 then resetGraph d s else s"
  obtain s3 where s3:
    "integrateAndOptimize d (odom_stamp msg) (lidarPose_of msg) (degenerate_of msg) ?s1 = Inr s3"
    "failureDetection (prevVel s3) (prevBias s3) \<Longrightarrow> s' = resetParams s3"
    using odometryHandler_normal [OF assms(1-3)] by blast
  have "prevVel s' = prevVel s3" "prevBias s' = prevBias s3"
    using odometryHandler_prev [OF assms(1-3) s3(1)] by simp_all
  with assms(4) s3(2) have r: "s' = resetParams s3" by simp
  note f = integrateAndOptimize_frame [OF s3(1)]
  have "prevStateOdom s3 = prevStateOdom s" "prevBiasOdom s3 = prevBiasOdom s"
    "imuQueImu s3 = imuQueImu s" "imuIntegratorImu s3 = imuIntegratorImu s"
    "key s3 = (if key s = 100 then 1 else key s)"
    using f(2-6) by (simp_all add: resetGraph_frame)
  with r show ?thesis by (simp add: resetParams_def resetGraph_frame)
qed

theorem failure_returns_before_handoff_witness:
  "\<exists>s'. odometryHandler failingDeps (odomAt 2) readyState = Inr s'
     \<and> systemInitialized readyState \<and> imuQueOpt readyState \<noteq> []
     \<and> failureDetection (prevVel s') (prevBias s')
     \<and> prevStateOdom s' = prevStateOdom readyState \<and> prevBiasOdom s' = prevBiasOdom readyState
     \<and> imuQueImu s' = [imuAt 1] \<and> imuIntegratorImu s' = imuIntegratorImu readyState
     \<and> key s' = 1 \<and> doneFirstOpt s' = False"
proof -
  have "\<exists>s'. odometryHandler failingDeps (odomAt 2) readyState = Inr s'
      \<and> failureDetection (prevVel s') (prevBias s')"
    by (simp add: model_defs example_defs)
  then obtain s' where h: "odometryHandler failingDeps (odomAt 2) readyState = Inr s'"
    "failureDetection (prevVel s') (prevBias s')"
    by blast
  have pre: "systemInitialized readyState" "imuQueOpt readyState \<noteq> []"
    by (simp_all add: example_defs)
  have k: "key readyState = 1" "imuQueImu readyState = [imuAt 1]"
    by (simp_all add: example_defs)
  from failure_returns_before_handoff [OF pre h] k h pre show ?thesis
    by simp
qed

subsection \<open>Queue hygiene\<close>

lemma initializeSystem_queue:
  "imuQueOpt (initializeSystem d t lp s) = dropWhile (\<lambda>m. stamp m < t) (imuQueOpt s)"
  by (simp add: initializeSystem_def resetOptimization_def popOldImu_eq Let_def)

lemma odometryHandler_queue:
  assumes "odometryHandler d msg s = Inr s'"
  shows "imuQueOpt s' = dropWhile (\<lambda>m. stamp m < odom_stamp msg) (imuQueOpt s)"
proof (cases "imuQueOpt s = []")
  case True
  with assms show ?thesis by (simp add: odometryHandler_def)
next
  case ne: False
  show ?thesis
  proof (cases "systemInitialized s")
    case False
    with ne assms show ?thesis
      by (auto simp: odometryHandler_def Let_def initializeSystem_queue)
  next
    case True
    let ?s1 = "if key s = 100 then resetGraph d s else s"
    obtain s3 where s3:
      "integrateAndOptimize d (odom_stamp msg) (lidarPose_of msg) (degenerate_of msg) ?s1 = Inr s3"
      "failureDetection (prevVel s3) (prevBias s3) \<Longrightarrow> s' = resetParams s3"
      "\<not> failureDetection (prevVel s3) (prevBias s3) \<Longrightarrow> repropagate (odom_stamp msg) s3 = Inr s'"
      using odometryHandler_normal [OF True ne assms] by blast
    have q3: "imuQueOpt s3 = dropWhile (\<lambda>m. stamp m < odom_stamp msg) (imuQueOpt s)"
      using integrateAndOptimize_frame(1) [OF s3(1)] by (simp add: resetGraph_frame)
    show ?thesis
    proof (cases "failureDetection (prevVel s3) (prevBias s3)")
      case True
      with s3(2) q3 show ?thesis by (simp add: resetParams_def)
    next
      case False
      with s3(3) q3 repropagate_frame(1) [of "odom_stamp msg" s3 s'] show ?thesis by simp
    qed
  qed
qed

text \<open>
  Claim C6, amended. When \<^verbatim>\<open>odometryHandler\<close> returns, in whichever branch,
  \<open>imuQueOpt\<close> is the queue of the call without its longest prefix of samples older
  than the lidar time stamp. So when the time stamps in the queue are non-decreasing,
  no sample older than the lidar time stamp is left.
\<close>

theorem queue_hygiene_sorted:
  assumes "odometryHandler d msg s = Inr s'"
    and "sorted (map stamp (imuQueOpt s))"
  shows "imuQueOpt s' = dropWhile (\<lambda>m. stamp m < odom_stamp msg) (imuQueOpt s)
       \<and> (\<forall>m \<in> set (imuQueOpt s'). \<not> stamp m < odom_stamp msg)"
proof (intro conjI ballI)
  show q: "imuQueOpt s' = dropWhile (\<lambda>m. stamp m < odom_stamp msg) (imuQueOpt s)"
    by (rule odometryHandler_queue [OF assms(1)])
  fix m
  assume "m \<in> set (imuQueOpt s')"
  with q have "m \<in> set (dropWhile (\<lambda>m. stamp m < odom_stamp msg) (imuQueOpt s))"
    by simp
  then show "\<not> stamp m < odom_stamp msg"
    by (rule sorted_dropWhile_stamp [OF assms(2)])
qed

text \<open>
  The claim as stated fails on a queue that is out of order: after the samples of
  times 5 and 1 and a lidar pose of time 3 the loop stops at the front sample, and
  the sample of time 1 stays in the queue.
\<close>

theorem queue_hygiene_counterexample:
  "\<exists>s'. run exampleDeps [ImuEvent (imuAt 5), ImuEvent (imuAt 1), OdomEvent (odomAt 3)] initialState
          = Inr s'
     \<and> imuAt 1 \<in> set (imuQueOpt s') \<and> stamp (imuAt 1) < odom_stamp (odomAt 3)"
proof -
  let ?s1 = "initialState\<lparr>imuQueOpt := [imuAt 5], imuQueImu := [imuAt 5]\<rparr>"
  let ?s2 = "initialState\<lparr>imuQueOpt := [imuAt 5, imuAt 1], imuQueImu := [imuAt 5, imuAt 1]\<rparr>"
  have e1: "imuHandler exampleDeps (imuAt 5) initialState = Inr ?s1"
    by (simp add: imuHandler_def Let_def exampleDeps_def initialState_def)
  have e2: "imuHandler exampleDeps (imuAt 1) ?s1 = Inr ?s2"
    by (simp add: imuHandler_def Let_def exampleDeps_def initialState_def)
  have "\<exists>s'. odometryHandler exampleDeps (odomAt 3) ?s2 = Inr s'
      \<and> imuQueOpt s' = [imuAt 5, imuAt 1]"
    by (simp add: model_defs example_defs)
  then obtain s' where e3: "odometryHandler exampleDeps (odomAt 3) ?s2 = Inr s'"
    and q: "imuQueOpt s' = [imuAt 5, imuAt 1]"
    by blast
  have "run exampleDeps [ImuEvent (imuAt 5), ImuEvent (imuAt 1), OdomEvent (odomAt 3)]
          initialState = Inr s'"
    by (simp add: e1 e2 e3)
  moreover have "stamp (imuAt 1) < odom_stamp (odomAt 3)"
    by (simp add: imuAt_def odomAt_def)
  ultimately show ?thesis using q by auto
qed

theorem queue_hygiene_sorted_witness:
  "\<exists>s'. odometryHandler exampleDeps (odomAt 2) (readyState\<lparr>imuQueOpt := [imuAt 1, imuAt 3]\<rparr>) = Inr s'
     \<and> sorted (map stamp [imuAt 1, imuAt 3])
     \<and> imuQueOpt s' = [imuAt 3] \<and> \<not> stamp (imuAt 3) < odom_stamp (odomAt 2)"
proof -
  let ?s = "readyState\<lparr>imuQueOpt := [imuAt 1, imuAt 3]\<rparr>"
  have "\<exists>s'. odometryHandler exampleDeps (odomAt 2) ?s = Inr s'"
    by (simp add: model_defs example_defs)
  then obtain s' where h: "odometryHandler exampleDeps (odomAt 2) ?s = Inr s'"
    by blast
  have srt: "sorted (map stamp (imuQueOpt ?s))"
    by (simp add: example_defs)
  have "dropWhile (\<lambda>m. stamp m < odom_stamp (odomAt 2)) (imuQueOpt ?s) = [imuAt 3]"
    by (simp add: example_defs)
  with queue_hygiene_sorted [OF h srt] h srt show ?thesis
    by (simp add: example_defs)
qed

subsection \<open>A time step that is not positive\<close>

lemma integrateQueOpt_bad_dt:
  assumes "stamp m < t" and "0 \<le> lastT" and "stamp m \<le> lastT"
  shows "integrateQueOpt t lastT p (m # q) = Inl InvalidTimestepping"
  using assms by (simp add: integrateMeasurement_def delta_t_def Let_def)

lemma integrateQueOpt_bad_dt_later:
  assumes "\<forall>x \<in> set pre. stamp x < t" and "stamp m < t"
    and "0 \<le> (if pre = [] then lastT else stamp (last pre))"
    and "stamp m \<le> (if pre = [] then lastT else stamp (last pre))"
  shows "integrateQueOpt t lastT p (pre @ m # q) = Inl InvalidTimestepping"
  using assms
proof (induction pre arbitrary: lastT p)
  case Nil
  then show ?case using integrateQueOpt_bad_dt [of m t lastT p q] by simp
next
  case (Cons x pre)
  let ?dt = "if lastT < 0 then 1 / 500 else stamp x - lastT"
  from Cons.prems have x: "stamp x < t" by simp
  show ?case
  proof (cases "integrateMeasurement (linear_acceleration x) (angular_velocity x) ?dt p")
    case (Inl e)
    moreover have "e = InvalidTimestepping" by (cases e)
    ultimately show ?thesis using x by (simp add: delta_t_def Let_def)
  next
    case (Inr p')
    have "integrateQueOpt t (stamp x) p' (pre @ m # q) = Inl InvalidTimestepping"
      using Cons.prems by (intro Cons.IH) (auto split: if_splits)
    with Inr x show ?thesis by (simp add: delta_t_def Let_def)
  qed
qed

text \<open>
  Claim C2, amended. Neither path tests the time step. In \<^verbatim>\<open>imuHandler\<close>, once the
  first optimisation is done, a sample whose time is not after \<open>lastImuT_imu\<close> (which
  is not negative) reaches the preintegrator with a time step that is not positive;
  the integration fails and the handler ends with that failure, InvalidTimestepping.
  In \<^verbatim>\<open>odometryHandler\<close>, the same holds for any sample \<open>m\<close> that the drain of
  \<open>imuQueOpt\<close> gets to (it and the samples \<open>pre\<close> queued before it are older than
  the lidar pose) and whose time is not after that of the sample integrated before
  it: the last of \<open>pre\<close>, or \<open>lastImuT_opt\<close> when \<open>m\<close> is at the front (that time not
  being negative). In neither case does the handler drop the sample and go on.
\<close>

theorem nonpositive_dt_ends_handler:
  "(doneFirstOpt s \<and> 0 \<le> lastImuT_imu s \<and> stamp (imuConverter d imu_raw) \<le> lastImuT_imu s
      \<longrightarrow> imuHandler d imu_raw s = Inl InvalidTimestepping)
   \<and> (systemInitialized s \<and> imuQueOpt s = pre @ m # q
        \<and> (\<forall>x \<in> set pre. stamp x < odom_stamp odomMsg) \<and> stamp m < odom_stamp odomMsg
        \<and> 0 \<le> (if pre = [] then lastImuT_opt s else stamp (last pre))
        \<and> stamp m \<le> (if pre = [] then lastImuT_opt s else stamp (last pre))
      \<longrightarrow> odometryHandler d odomMsg s = Inl InvalidTimestepping)"
proof (intro conjI impI)
  assume "doneFirstOpt s \<and> 0 \<le> lastImuT_imu s \<and> stamp (imuConverter d imu_raw) \<le> lastImuT_imu s"
  then show "imuHandler d imu_raw s = Inl InvalidTimestepping"
    by (simp add: imuHandler_def integrateMeasurement_def Let_def)
next
  assume a: "systemInitialized s \<and> imuQueOpt s = pre @ m # q
        \<and> (\<forall>x \<in> set pre. stamp x < odom_stamp odomMsg) \<and> stamp m < odom_stamp odomMsg
        \<and> 0 \<le> (if pre = [] then lastImuT_opt s else stamp (last pre))
        \<and> stamp m \<le> (if pre = [] then lastImuT_opt s else stamp (last pre))"
  let ?s1 = "if key s = 100 then resetGraph d s else s"
  have q1: "imuQueOpt ?s1 = pre @ m # q" and l1: "lastImuT_opt ?s1 = lastImuT_opt s"
    using a by (simp_all add: resetGraph_frame)
  have "integrateQueOpt (odom_stamp odomMsg) (lastImuT_opt s) (imuIntegratorOpt ?s1)
      (pre @ m # q) = Inl InvalidTimestepping"
    using a by (intro integrateQueOpt_bad_dt_later) simp_all
  with q1 l1 have "integrateQueOpt (odom_stamp odomMsg) (lastImuT_opt ?s1) (imuIntegratorOpt ?s1)
      (imuQueOpt ?s1) = Inl InvalidTimestepping"
    by simp
  then have "integrateAndOptimize d (odom_stamp odomMsg) (lidarPose_of odomMsg)
      (degenerate_of odomMsg) ?s1 = Inl InvalidTimestepping"
    by (simp add: integrateAndOptimize_def)
  with a show "odometryHandler d odomMsg s = Inl InvalidTimestepping"
    by (simp add: odometryHandler_def Let_def)
qed

theorem nonpositive_dt_ends_handler_witness:
  "doneFirstOpt (readyState\<lparr>doneFirstOpt := True, lastImuT_imu := 1\<rparr>)
   \<and> stamp (imuConverter exampleDeps (imuAt 1)) \<le> 1
   \<and> imuHandler exampleDeps (imuAt 1) (readyState\<lparr>doneFirstOpt := True, lastImuT_imu := 1\<rparr>)
       = Inl InvalidTimestepping
   \<and> imuQueOpt (readyState\<lparr>imuQueOpt := [imuAt 1, imuAt 2, imuAt 2]\<rparr>)
       = [imuAt 1, imuAt 2] @ imuAt 2 # []
   \<and> lastImuT_opt (readyState\<lparr>imuQueOpt := [imuAt 1, imuAt 2, imuAt 2]\<rparr>) = - 1
   \<and> stamp (imuAt 2) \<le> stamp (last [imuAt 1, imuAt 2])
   \<and> stamp (imuAt 2) < odom_stamp (odomAt 3)
   \<and> odometryHandler exampleDeps (odomAt 3)
        (readyState\<lparr>imuQueOpt := [imuAt 1, imuAt 2, imuAt 2]\<rparr>)
       = Inl InvalidTimestepping"
proof -
  let ?a = "readyState\<lparr>doneFirstOpt := True, lastImuT_imu := 1\<rparr>"
  let ?b = "readyState\<lparr>imuQueOpt := [imuAt 1, imuAt 2, imuAt 2]\<rparr>"
  let ?pre = "[imuAt 1, imuAt 2]"
  have pa: "doneFirstOpt ?a \<and> 0 \<le> lastImuT_imu ?a
      \<and> stamp (imuConverter exampleDeps (imuAt 1)) \<le> lastImuT_imu ?a"
    by (simp add: example_defs)
  have pb: "systemInitialized ?b \<and> imuQueOpt ?b = ?pre @ imuAt 2 # []
        \<and> (\<forall>x \<in> set ?pre. stamp x < odom_stamp (odomAt 3))
        \<and> stamp (imuAt 2) < odom_stamp (odomAt 3)
        \<and> 0 \<le> (if ?pre = [] then lastImuT_opt ?b else stamp (last ?pre))
        \<and> stamp (imuAt 2) \<le> (if ?pre = [] then lastImuT_opt ?b else stamp (last ?pre))"
    by (simp add: example_defs)
  have l: "lastImuT_opt ?b = - 1" "stamp (imuAt 2) \<le> stamp (last ?pre)"
    by (simp_all add: example_defs)
  from nonpositive_dt_ends_handler
    [where s = ?a and d = exampleDeps and imu_raw = "imuAt 1"] pa
  have ra: "imuHandler exampleDeps (imuAt 1) ?a = Inl InvalidTimestepping"
    by blast
  from nonpositive_dt_ends_handler
    [where s = ?b and d = exampleDeps and pre = ?pre and m = "imuAt 2" and q = "[]"
       and odomMsg = "odomAt 3"] pb
  have rb: "odometryHandler exampleDeps (odomAt 3) ?b = Inl InvalidTimestepping"
    by blast
  from pa pb ra rb l show ?thesis
    by simp
qed

text \<open>
  The claim as stated fails where two samples carry the same time stamp: the second
  one is not dropped, the run of the node ends with the failure of its integration.
\<close>

theorem nonpositive_dt_counterexample:
  "run exampleDeps
     [ImuEvent (imuAt 1), OdomEvent (odomAt 0), ImuEvent (imuAt 2), ImuEvent (imuAt 2),
      OdomEvent (odomAt 3)] initialState = Inl InvalidTimestepping"
proof -
  let ?s1 = "initialState\<lparr>imuQueOpt := [imuAt 1], imuQueImu := [imuAt 1]\<rparr>"
  have e1: "imuHandler exampleDeps (imuAt 1) initialState = Inr ?s1"
    by (simp add: imuHandler_def Let_def exampleDeps_def initialState_def)
  have "\<exists>s2. odometryHandler exampleDeps (odomAt 0) ?s1 = Inr s2
      \<and> systemInitialized s2 \<and> doneFirstOpt s2 = False \<and> imuQueOpt s2 = [imuAt 1]
      \<and> lastImuT_opt s2 = - 1 \<and> key s2 = 1"
    by (simp add: model_defs example_defs)
  then obtain s2 where e2: "odometryHandler exampleDeps (odomAt 0) ?s1 = Inr s2"
    and s2: "systemInitialized s2" "doneFirstOpt s2 = False" "imuQueOpt s2 = [imuAt 1]"
      "lastImuT_opt s2 = - 1" "key s2 = 1"
    by blast
  let ?s3 = "s2\<lparr>imuQueOpt := imuQueOpt s2 @ [imuAt 2], imuQueImu := imuQueImu s2 @ [imuAt 2]\<rparr>"
  let ?s4 = "?s3\<lparr>imuQueOpt := imuQueOpt ?s3 @ [imuAt 2], imuQueImu := imuQueImu ?s3 @ [imuAt 2]\<rparr>"
  have e3: "imuHandler exampleDeps (imuAt 2) s2 = Inr ?s3"
    using s2 by (simp add: imuHandler_def Let_def exampleDeps_def)
  have e4: "imuHandler exampleDeps (imuAt 2) ?s3 = Inr ?s4"
    using s2 by (simp add: imuHandler_def Let_def exampleDeps_def)
  have "integrateQueOpt 3 (- 1) (imuIntegratorOpt s2) [imuAt 1, imuAt 2, imuAt 2]
      = Inl InvalidTimestepping"
    by (simp add: integrateMeasurement_def delta_t_def imuAt_def Let_def)
  then have e5: "odometryHandler exampleDeps (odomAt 3) ?s4 = Inl InvalidTimestepping"
    using s2 by (simp add: odometryHandler_def integrateAndOptimize_def odomAt_def Let_def)
  from e5 show ?thesis
    by (simp add: e1 e2 e3 e4)
qed

subsection \<open>The published odometry\<close>

lemma imuHandler_published:
  assumes "doneFirstOpt s" and "imuHandler d imu_raw s = Inr s'"
  shows "\<exists>p. integrateMeasurement (linear_acceleration (imuConverter d imu_raw))
            (angular_velocity (imuConverter d imu_raw))
            (if lastImuT_imu s < 0 then 1 / 500 else stamp (imuConverter d imu_raw) - lastImuT_imu s)
            (imuIntegratorImu s) = Inr p
         \<and> imuIntegratorImu s' = p
         \<and> lastImuT_imu s' = stamp (imuConverter d imu_raw)
         \<and> prevStateOdom s' = prevStateOdom s \<and> prevBiasOdom s' = prevBiasOdom s
         \<and> pubImuOdometry s' = pubImuOdometry s @
             [\<lparr>odom_stamp = stamp (imuConverter d imu_raw),
               frame_id = odometryFrame d,
               child_frame_id = ''odom_imu'',
               position = translation (compose
                   (Pose3 (Rot3_of (toQuaternion d (rotation (pose
                       (predict d p (prevStateOdom s) (prevBiasOdom s))))))
                     (translation (pose (predict d p (prevStateOdom s) (prevBiasOdom s)))))
                   (imu2Lidar d)),
               odom_orientation = toQuaternion d (rotation (compose
                   (Pose3 (Rot3_of (toQuaternion d (rotation (pose
                       (predict d p (prevStateOdom s) (prevBiasOdom s))))))
                     (translation (pose (predict d p (prevStateOdom s) (prevBiasOdom s)))))
                   (imu2Lidar d))),
               covariance = replicate 36 0,
               twist_linear = velocity (predict d p (prevStateOdom s) (prevBiasOdom s)),
               twist_angular =
                 Vector3 (vx (angular_velocity (imuConverter d imu_raw)) + vx (gyroscope (prevBiasOdom s)))
                         (vy (angular_velocity (imuConverter d imu_raw)) + vy (gyroscope (prevBiasOdom s)))
                         (vz (angular_velocity (imuConverter d imu_raw)) + vz (gyroscope (prevBiasOdom s)))\<rparr>]"
  using assms unfolding imuHandler_def Let_def
  by (auto split: sum.splits)

text \<open>
  Claim C7. For every sample that \<^verbatim>\<open>imuHandler\<close> processes once the first optimisation
  is done, one message is published; its linear velocity is the velocity of the state
  that the forward preintegrator (with this sample integrated) predicts from
  \<open>prevStateOdom\<close> and \<open>prevBiasOdom\<close>, and each component of its angular velocity
  is the converted gyroscope reading plus the gyroscope bias of \<open>prevBiasOdom\<close>.
\<close>

theorem published_twist:
  assumes "doneFirstOpt s" and "imuHandler d imu_raw s = Inr s'"
  shows "butlast (pubImuOdometry s') = pubImuOdometry s
       \<and> pubImuOdometry s' \<noteq> []
       \<and> twist_linear (last (pubImuOdometry s'))
           = velocity (predict d (imuIntegratorImu s') (prevStateOdom s) (prevBiasOdom s))
       \<and> vx (twist_angular (last (pubImuOdometry s')))
           = vx (angular_velocity (imuConverter d imu_raw)) + vx (gyroscope (prevBiasOdom s))
       \<and> vy (twist_angular (last (pubImuOdometry s')))
           = vy (angular_velocity (imuConverter d imu_raw)) + vy (gyroscope (prevBiasOdom s))
       \<and> vz (twist_angular (last (pubImuOdometry s')))
           = vz (angular_velocity (imuConverter d imu_raw)) + vz (gyroscope (prevBiasOdom s))"
  using imuHandler_published [OF assms] by auto

theorem published_twist_witness:
  "\<exists>s'. imuHandler biasedDeps (imuAt 2) seededState = Inr s'
     \<and> doneFirstOpt seededState
     \<and> twist_linear (last (pubImuOdometry s')) = Vector3 1 2 3
     \<and> vx (twist_angular (last (pubImuOdometry s'))) = 1/10
     \<and> vy (twist_angular (last (pubImuOdometry s'))) = 2/10
     \<and> vz (twist_angular (last (pubImuOdometry s'))) = 3/10"
proof -
  have "\<exists>s'. imuHandler biasedDeps (imuAt 2) seededState = Inr s'"
    by (simp add: model_defs example_defs biasedDeps_def seededState_def)
  then obtain s' where h: "imuHandler biasedDeps (imuAt 2) seededState = Inr s'"
    by blast
  have pre: "doneFirstOpt seededState"
    by (simp add: seededState_def)
  have v: "velocity (predict biasedDeps (imuIntegratorImu s') (prevStateOdom seededState)
      (prevBiasOdom seededState)) = Vector3 1 2 3"
    by (simp add: biasedDeps_def)
  have g: "gyroscope (prevBiasOdom seededState) = Vector3 (1/10) (2/10) (3/10)"
    "angular_velocity (imuConverter biasedDeps (imuAt 2)) = Vector3 0 0 0"
    by (simp_all add: seededState_def biasedDeps_def exampleDeps_def imuAt_def)
  from published_twist [OF pre h] v g h pre show ?thesis
    by simp
qed

subsection \<open>The extrinsic transforms\<close>

lemma Rot3_Quaternion_identity: "Rot3_Quaternion 1 0 0 0 = Rot3_identity"
  by (simp add: Rot3_Quaternion_def Rot3_identity_def)

lemma rmul_identity: "rmul R Rot3_identity = R"
  by (cases R) (simp add: Rot3_identity_def)

lemma rotate_identity: "rotate3 Rot3_identity p = p"
  by (cases p) (simp add: Rot3_identity_def)

lemma rotate_neg_cancel:
  "vadd (vadd t (rotate3 R (Vector3 a b c))) (rotate3 R (Vector3 (- a) (- b) (- c))) = t"
  by (cases R; cases t) (simp add: vadd_def)

lemma initializeSystem_prevPose:
  "prevPose (initializeSystem d t lp s) = compose lp (lidar2Imu d)"
  by (simp add: initializeSystem_def Let_def split: prod.splits)

text \<open>
  Claim C9. \<^verbatim>\<open>lidar2Imu\<close> and \<^verbatim>\<open>imu2Lidar\<close> have the identity rotation and the
  translations \<open>extTrans\<close> and \<open>- extTrans\<close>. Composing a pose with \<^verbatim>\<open>lidar2Imu\<close>
  and then with \<^verbatim>\<open>imu2Lidar\<close> gives the pose back, and composing with either leaves
  the rotation of the pose as it is: only the translation moves, by the rotated
  \<open>extTrans\<close>. (Exact arithmetic: the doubles are reals.) The handlers compose with
  these two poses: the initialising call of \<^verbatim>\<open>odometryHandler\<close> sets \<open>prevPose\<close> to
  the lidar pose composed with \<^verbatim>\<open>lidar2Imu\<close> (for the later calls see the prior factor
  of claim C5), and the position that \<^verbatim>\<open>imuHandler\<close> publishes is that of the
  predicted pose composed with \<^verbatim>\<open>imu2Lidar\<close>. The rotational extrinsics are no input
  of either: they enter through \<open>imuConverter\<close> only.
\<close>

theorem extrinsics_identity_rotation_roundtrip:
  "rotation (lidar2Imu d) = Rot3_identity
   \<and> translation (lidar2Imu d) = extTrans d
   \<and> rotation (imu2Lidar d) = Rot3_identity
   \<and> translation (imu2Lidar d)
       = Vector3 (- vx (extTrans d)) (- vy (extTrans d)) (- vz (extTrans d))
   \<and> compose (compose P (lidar2Imu d)) (imu2Lidar d) = P
   \<and> rotation (compose P (lidar2Imu d)) = rotation P
   \<and> rotation (compose P (imu2Lidar d)) = rotation P
   \<and> translation (compose P (lidar2Imu d))
       = vadd (translation P) (rotate3 (rotation P) (extTrans d))
   \<and> (imuQueOpt s \<noteq> [] \<and> systemInitialized s = False
        \<longrightarrow> (\<exists>s'. odometryHandler d odomMsg s = Inr s'
               \<and> prevPose s' = compose (lidarPose_of odomMsg) (lidar2Imu d)))
   \<and> (doneFirstOpt s \<and> imuHandler d imu_raw s = Inr s'
        \<longrightarrow> (\<exists>currentState.
               currentState = predict d (imuIntegratorImu s') (prevStateOdom s) (prevBiasOdom s)
               \<and> position (last (pubImuOdometry s'))
                   = translation (compose
                       (Pose3 (Rot3_of (toQuaternion d (rotation (pose currentState))))
                              (translation (pose currentState)))
                       (imu2Lidar d))))"
proof -
  have l: "lidar2Imu d = Pose3 Rot3_identity (extTrans d)"
    by (simp add: lidar2Imu_def Rot3_Quaternion_identity)
  have i: "imu2Lidar d = Pose3 Rot3_identity
      (Vector3 (- vx (extTrans d)) (- vy (extTrans d)) (- vz (extTrans d)))"
    by (simp add: imu2Lidar_def Rot3_Quaternion_identity)
  have "compose (compose P (lidar2Imu d)) (imu2Lidar d)
      = Pose3 (rotation P)
          (vadd (vadd (translation P) (rotate3 (rotation P) (extTrans d)))
                (rotate3 (rotation P)
                   (Vector3 (- vx (extTrans d)) (- vy (extTrans d)) (- vz (extTrans d)))))"
    by (simp add: l i compose_def rmul_identity)
  also have "\<dots> = Pose3 (rotation P) (translation P)"
    using rotate_neg_cancel [of "translation P" "rotation P" "vx (extTrans d)" "vy (extTrans d)"
        "vz (extTrans d)"]
    by simp
  finally have rt: "compose (compose P (lidar2Imu d)) (imu2Lidar d) = P"
    by simp
  have alg: "rotation (lidar2Imu d) = Rot3_identity
   \<and> translation (lidar2Imu d) = extTrans d
   \<and> rotation (imu2Lidar d) = Rot3_identity
   \<and> translation (imu2Lidar d)
       = Vector3 (- vx (extTrans d)) (- vy (extTrans d)) (- vz (extTrans d))
   \<and> compose (compose P (lidar2Imu d)) (imu2Lidar d) = P
   \<and> rotation (compose P (lidar2Imu d)) = rotation P
   \<and> rotation (compose P (imu2Lidar d)) = rotation P
   \<and> translation (compose P (lidar2Imu d))
       = vadd (translation P) (rotate3 (rotation P) (extTrans d))"
    using rt by (simp add: l i compose_def rmul_identity)
  have inc: "imuQueOpt s \<noteq> [] \<and> systemInitialized s = False
        \<longrightarrow> (\<exists>s'. odometryHandler d odomMsg s = Inr s'
               \<and> prevPose s' = compose (lidarPose_of odomMsg) (lidar2Imu d))"
    by (simp add: odometryHandler_def Let_def initializeSystem_prevPose)
  have out: "doneFirstOpt s \<and> imuHandler d imu_raw s = Inr s'
        \<longrightarrow> (\<exists>currentState.
               currentState = predict d (imuIntegratorImu s') (prevStateOdom s) (prevBiasOdom s)
               \<and> position (last (pubImuOdometry s'))
                   = translation (compose
                       (Pose3 (Rot3_of (toQuaternion d (rotation (pose currentState))))
                              (translation (pose currentState)))
                       (imu2Lidar d)))"
  proof
    assume "doneFirstOpt s \<and> imuHandler d imu_raw s = Inr s'"
    then have "doneFirstOpt s" "imuHandler d imu_raw s = Inr s'" by simp_all
    from imuHandler_published [OF this] show "\<exists>currentState.
               currentState = predict d (imuIntegratorImu s') (prevStateOdom s) (prevBiasOdom s)
               \<and> position (last (pubImuOdometry s'))
                   = translation (compose
                       (Pose3 (Rot3_of (toQuaternion d (rotation (pose currentState))))
                              (translation (pose currentState)))
                       (imu2Lidar d))"
      by auto
  qed
  from alg inc out show ?thesis
    by blast
qed

theorem extrinsics_identity_rotation_roundtrip_witness:
  "compose (compose quarterTurn (lidar2Imu offsetDeps)) (imu2Lidar offsetDeps) = quarterTurn
   \<and> compose quarterTurn (lidar2Imu offsetDeps)
       = Pose3 (Rot3M 0 (- 1) 0 1 0 0 0 0 1) (Vector3 3 7 10)
   \<and> translation (imu2Lidar offsetDeps) = Vector3 (- 1) (- 2) (- 3)
   \<and> (\<exists>s'. odometryHandler offsetDeps (odomAt 0) (readyState\<lparr>systemInitialized := False\<rparr>) = Inr s'
         \<and> prevPose s' = Pose3 Rot3_identity (Vector3 1 2 3))
   \<and> (\<exists>s'. imuHandler offsetDeps (imuAt 2) seededState = Inr s'
         \<and> doneFirstOpt seededState
         \<and> position (last (pubImuOdometry s')) = Vector3 (- 1) (- 2) (- 3))"
proof -
  have a: "compose quarterTurn (lidar2Imu offsetDeps)
       = Pose3 (Rot3M 0 (- 1) 0 1 0 0 0 0 1) (Vector3 3 7 10)"
    by (simp add: compose_def lidar2Imu_def Rot3_Quaternion_def quarterTurn_def offsetDeps_def
        exampleDeps_def vadd_def)
  have b: "extTrans offsetDeps = Vector3 1 2 3"
    by (simp add: offsetDeps_def exampleDeps_def)
  let ?u = "readyState\<lparr>systemInitialized := False\<rparr>"
  have "\<exists>s'. imuHandler offsetDeps (imuAt 2) seededState = Inr s'"
    by (simp add: model_defs example_defs offsetDeps_def seededState_def)
  then obtain s2 where h: "imuHandler offsetDeps (imuAt 2) seededState = Inr s2"
    by blast
  have pre: "doneFirstOpt seededState" "imuQueOpt ?u \<noteq> [] \<and> systemInitialized ?u = False"
    by (simp_all add: seededState_def example_defs)
  note inst1 = extrinsics_identity_rotation_roundtrip
    [of offsetDeps quarterTurn ?u "odomAt 0"]
  note inst2 = extrinsics_identity_rotation_roundtrip
    [of offsetDeps quarterTurn seededState _ "imuAt 2" s2]
  from inst1 have rt:
    "compose (compose quarterTurn (lidar2Imu offsetDeps)) (imu2Lidar offsetDeps) = quarterTurn"
    by blast
  from inst1 have "translation (imu2Lidar offsetDeps)
      = Vector3 (- vx (extTrans offsetDeps)) (- vy (extTrans offsetDeps)) (- vz (extTrans offsetDeps))"
    by blast
  with b have t: "translation (imu2Lidar offsetDeps) = Vector3 (- 1) (- 2) (- 3)"
    by simp
  from inst1 pre(2) obtain s1 where h1: "odometryHandler offsetDeps (odomAt 0) ?u = Inr s1"
    and p1: "prevPose s1 = compose (lidarPose_of (odomAt 0)) (lidar2Imu offsetDeps)"
    by blast
  have "compose (lidarPose_of (odomAt 0)) (lidar2Imu offsetDeps) = Pose3 Rot3_identity (Vector3 1 2 3)"
    by (simp add: compose_def lidar2Imu_def lidarPose_of_def Rot3_Quaternion_def odomAt_def
        offsetDeps_def exampleDeps_def vadd_def Rot3_identity_def Let_def float_of_double_values)
  with p1 have p1': "prevPose s1 = Pose3 Rot3_identity (Vector3 1 2 3)"
    by simp
  from inst2 pre(1) h
  have "position (last (pubImuOdometry s2))
      = translation (compose
          (Pose3 (Rot3_of (toQuaternion offsetDeps (rotation (pose
              (predict offsetDeps (imuIntegratorImu s2) (prevStateOdom seededState)
                 (prevBiasOdom seededState))))))
             (translation (pose (predict offsetDeps (imuIntegratorImu s2)
                 (prevStateOdom seededState) (prevBiasOdom seededState)))))
          (imu2Lidar offsetDeps))"
    by blast
  also have "\<dots> = Vector3 (- 1) (- 2) (- 3)"
    by (simp add: compose_def imu2Lidar_def Rot3_of_def Rot3_Quaternion_def offsetDeps_def
        exampleDeps_def seededState_def readyState_def initialState_def Pose3_identity_def
        vadd_def)
  finally have p2: "position (last (pubImuOdometry s2)) = Vector3 (- 1) (- 2) (- 3)" .
  from rt a t h1 p1' h pre(1) p2 show ?thesis
    by blast
qed

subsection \<open>The factors of a keyframe\<close>

lemma optimizeKeyframe_optimizer:
  "optimizer (optimizeKeyframe d lp dg s) =
     (optimizer s)\<lparr>updates := updates (optimizer s) @
        [keyframeUpdate d lp dg s (imuIntegratorOpt s), ([], [])]\<rparr>"
  by (simp add: optimizeKeyframe_def keyframeUpdate_def ISAM2_update_def Let_def)

lemma integrateAndOptimize_optimizer:
  assumes "integrateAndOptimize d t lp dg s = Inr s3"
  shows "\<exists>p. optimizer s3 =
     (optimizer s)\<lparr>updates := updates (optimizer s) @ [keyframeUpdate d lp dg s p, ([], [])]\<rparr>"
proof (cases "integrateQueOpt t (lastImuT_opt s) (imuIntegratorOpt s) (imuQueOpt s)")
  case (Inl e)
  with assms show ?thesis by (simp add: integrateAndOptimize_def)
next
  case (Inr r)
  obtain lastT p q where r: "r = (lastT, p, q)" by (cases r)
  let ?s2 = "s\<lparr>lastImuT_opt := lastT, imuIntegratorOpt := p, imuQueOpt := q\<rparr>"
  from assms Inr r have "s3 = optimizeKeyframe d lp dg ?s2"
    by (simp add: integrateAndOptimize_def)
  moreover have "keyframeUpdate d lp dg ?s2 (imuIntegratorOpt ?s2) = keyframeUpdate d lp dg s p"
    by (simp add: keyframeUpdate_def)
  ultimately have "optimizer s3 =
     (optimizer s)\<lparr>updates := updates (optimizer s) @ [keyframeUpdate d lp dg s p, ([], [])]\<rparr>"
    by (simp add: optimizeKeyframe_optimizer)
  then show ?thesis by blast
qed

lemma odometryHandler_optimizer:
  assumes "systemInitialized s" and "imuQueOpt s \<noteq> []" and "odometryHandler d msg s = Inr s'"
  shows "\<exists>p. optimizer s' =
     (optimizer (if key s = 100 then resetGraph d s else s))
       \<lparr>updates := updates (optimizer (if key s = 100 then resetGraph d s else s)) @
          [keyframeUpdate d (lidarPose_of msg) (degenerate_of msg)
             (if key s = 100 then resetGraph d s else s) p, ([], [])]\<rparr>"
proof -
  let ?s1 = "if key s = 100 then resetGraph d s else s"
  obtain s3 where s3:
    "integrateAndOptimize d (odom_stamp msg) (lidarPose_of msg) (degenerate_of msg) ?s1 = Inr s3"
    "failureDetection (prevVel s3) (prevBias s3) \<Longrightarrow> s' = resetParams s3"
    "\<not> failureDetection (prevVel s3) (prevBias s3) \<Longrightarrow> repropagate (odom_stamp msg) s3 = Inr s'"
    using odometryHandler_normal [OF assms] by blast
  have "optimizer s' = optimizer s3"
  proof (cases "failureDetection (prevVel s3) (prevBias s3)")
    case True
    with s3(2) show ?thesis by (simp add: resetParams_def)
  next
    case False
    with s3(3) repropagate_frame(9) [of "odom_stamp msg" s3 s'] show ?thesis by simp
  qed
  with integrateAndOptimize_optimizer [OF s3(1)] show ?thesis by simp
qed

lemma odometryHandler_pose_prior:
  assumes "systemInitialized s" and "imuQueOpt s \<noteq> []" and "key s \<noteq> 100"
    and "odometryHandler d msg s = Inr s'"
  shows "\<exists>imu_factor bias_factor vals.
     updates (optimizer s') = updates (optimizer s) @
       [(graphFactors s @
           [imu_factor, bias_factor,
            PriorFactor_Pose3 (X (key s)) (compose (lidarPose_of msg) (lidar2Imu d))
              (if int_of_double (covariance msg ! 0) = 1
               then Diagonal_Sigmas [1, 1, 1, 1, 1, 1]
               else Diagonal_Sigmas [5/100, 5/100, 5/100, 1/10, 1/10, 1/10])],
         vals),
        ([], [])]"
proof -
  from odometryHandler_optimizer [OF assms(1,2,4)] assms(3)
  obtain p where "optimizer s' = (optimizer s)\<lparr>updates := updates (optimizer s) @
          [keyframeUpdate d (lidarPose_of msg) (degenerate_of msg) s p, ([], [])]\<rparr>"
    by auto
  then have "updates (optimizer s') = updates (optimizer s) @
          [keyframeUpdate d (lidarPose_of msg) (degenerate_of msg) s p, ([], [])]"
    by simp
  then show ?thesis
    by (simp add: keyframeUpdate_def degenerate_of_def correctionNoise_def correctionNoise2_def)
qed

text \<open>
  Claim C5, amended. For every lidar pose that \<^verbatim>\<open>odometryHandler\<close> processes on the
  normal path (initialised, samples queued, key counter not 100), the smoother
  receives two updates; the first carries the IMU factor, the bias factor and, last,
  the prior on \<open>X key\<close>. The pose of that prior is the lidar pose as the handler reads
  it, the position and the orientation quaternion of the message narrowed to
  \<^verbatim>\<open>float\<close>, composed with \<^verbatim>\<open>lidar2Imu\<close>: its rotation is that of the narrowed
  quaternion, its translation the narrowed position plus the rotated \<open>extTrans\<close>.
  The noise of that prior has the sigmas 0.05, 0.05, 0.05, 0.1, 0.1, 0.1, unless the
  first covariance entry of the message, converted to \<^verbatim>\<open>int\<close>, is 1: then all six
  sigmas are 1.
\<close>

theorem pose_prior_of_lidar_pose:
  assumes "systemInitialized s" and "imuQueOpt s \<noteq> []" and "key s \<noteq> 100"
    and "odometryHandler d msg s = Inr s'"
  shows "\<exists>imu_factor bias_factor vals R p.
     R = Rot3_Quaternion (float_of_double (qw (odom_orientation msg)))
           (float_of_double (qx (odom_orientation msg)))
           (float_of_double (qy (odom_orientation msg)))
           (float_of_double (qz (odom_orientation msg)))
     \<and> p = Vector3 (float_of_double (vx (position msg))) (float_of_double (vy (position msg)))
           (float_of_double (vz (position msg)))
     \<and> compose (Pose3 R p) (lidar2Imu d) = Pose3 R (vadd p (rotate3 R (extTrans d)))
     \<and> updates (optimizer s') = updates (optimizer s) @
       [(graphFactors s @
           [imu_factor, bias_factor,
            PriorFactor_Pose3 (X (key s)) (Pose3 R (vadd p (rotate3 R (extTrans d))))
              (if int_of_double (covariance msg ! 0) = 1
               then Diagonal_Sigmas [1, 1, 1, 1, 1, 1]
               else Diagonal_Sigmas [5/100, 5/100, 5/100, 1/10, 1/10, 1/10])],
         vals),
        ([], [])]"
proof -
  define R where "R = Rot3_Quaternion (float_of_double (qw (odom_orientation msg)))
           (float_of_double (qx (odom_orientation msg)))
           (float_of_double (qy (odom_orientation msg)))
           (float_of_double (qz (odom_orientation msg)))"
  define p where "p = Vector3 (float_of_double (vx (position msg)))
           (float_of_double (vy (position msg))) (float_of_double (vz (position msg)))"
  have l: "lidarPose_of msg = Pose3 R p"
    by (simp add: lidarPose_of_def Let_def R_def p_def)
  have c: "compose (Pose3 R p) (lidar2Imu d) = Pose3 R (vadd p (rotate3 R (extTrans d)))"
    by (simp add: compose_def lidar2Imu_def Rot3_Quaternion_identity rmul_identity)
  from odometryHandler_pose_prior [OF assms] l c R_def p_def
  show ?thesis
    by auto
qed

theorem pose_prior_of_lidar_pose_witness:
  "(\<exists>s' imu_factor bias_factor vals.
     odometryHandler offsetDeps (turnedOdomAt 2 1) readyState = Inr s'
     \<and> systemInitialized readyState \<and> imuQueOpt readyState \<noteq> [] \<and> key readyState \<noteq> 100
     \<and> updates (optimizer s') =
       [([imu_factor, bias_factor,
          PriorFactor_Pose3 (X 1)
            (Pose3 (Rot3M (- 1) 0 0 0 (- 1) 0 0 0 1) (Vector3 4 4 10))
            (Diagonal_Sigmas [1, 1, 1, 1, 1, 1])], vals),
        ([], [])])
   \<and> (\<exists>s' imu_factor bias_factor vals.
     odometryHandler offsetDeps (turnedOdomAt 2 0) readyState = Inr s'
     \<and> updates (optimizer s') =
       [([imu_factor, bias_factor,
          PriorFactor_Pose3 (X 1)
            (Pose3 (Rot3M (- 1) 0 0 0 (- 1) 0 0 0 1) (Vector3 4 4 10))
            (Diagonal_Sigmas [5/100, 5/100, 5/100, 1/10, 1/10, 1/10])], vals),
        ([], [])])
   \<and> lidarPose_of (turnedOdomAt 2 1) = Pose3 (Rot3M (- 1) 0 0 0 (- 1) 0 0 0 1) (Vector3 5 6 7)
   \<and> compose (Pose3 (Rot3M (- 1) 0 0 0 (- 1) 0 0 0 1) (Vector3 5 6 7)) (lidar2Imu offsetDeps)
       = Pose3 (Rot3M (- 1) 0 0 0 (- 1) 0 0 0 1) (Vector3 4 4 10)"
proof -
  have lp: "lidarPose_of (turnedOdomAt 2 1)
      = Pose3 (Rot3M (- 1) 0 0 0 (- 1) 0 0 0 1) (Vector3 5 6 7)"
    by (simp add: lidarPose_of_def turnedOdomAt_def odomAt_def Rot3_Quaternion_def Let_def
        float_of_double_values)
  have cp: "compose (Pose3 (Rot3M (- 1) 0 0 0 (- 1) 0 0 0 1) (Vector3 5 6 7))
        (lidar2Imu offsetDeps)
       = Pose3 (Rot3M (- 1) 0 0 0 (- 1) 0 0 0 1) (Vector3 4 4 10)"
    by (simp add: compose_def lidar2Imu_def Rot3_Quaternion_def offsetDeps_def exampleDeps_def
        vadd_def)
  have pre: "systemInitialized readyState" "imuQueOpt readyState \<noteq> []" "key readyState \<noteq> 100"
    by (simp_all add: example_defs)
  have k: "key readyState = 1" "updates (optimizer readyState) = []" "graphFactors readyState = []"
    by (simp_all add: example_defs ISAM2_new_def)
  have e: "extTrans offsetDeps = Vector3 1 2 3"
    by (simp add: offsetDeps_def exampleDeps_def)
  have m: "odom_orientation (turnedOdomAt 2 c) = Quaternion 0 0 0 1"
    "position (turnedOdomAt 2 c) = Vector3 5 6 7"
    "covariance (turnedOdomAt 2 c) ! 0 = c" for c
    by (simp_all add: turnedOdomAt_def odomAt_def)
  have c: "int_of_double 1 = 1" "int_of_double 0 \<noteq> 1"
    by (simp_all add: int_of_double_def)
  have "\<exists>s'. odometryHandler offsetDeps (turnedOdomAt 2 1) readyState = Inr s'"
    by (simp add: model_defs example_defs offsetDeps_def turnedOdomAt_def)
  then obtain s1 where h1: "odometryHandler offsetDeps (turnedOdomAt 2 1) readyState = Inr s1"
    by blast
  have "\<exists>s'. odometryHandler offsetDeps (turnedOdomAt 2 0) readyState = Inr s'"
    by (simp add: model_defs example_defs offsetDeps_def turnedOdomAt_def)
  then obtain s0 where h0: "odometryHandler offsetDeps (turnedOdomAt 2 0) readyState = Inr s0"
    by blast
  from pose_prior_of_lidar_pose [OF pre h1]
  have a1: "\<exists>imu_factor bias_factor vals. updates (optimizer s1) =
       [([imu_factor, bias_factor,
          PriorFactor_Pose3 (X 1)
            (Pose3 (Rot3M (- 1) 0 0 0 (- 1) 0 0 0 1) (Vector3 4 4 10))
            (Diagonal_Sigmas [1, 1, 1, 1, 1, 1])], vals),
        ([], [])]"
    by (simp add: k e m c vadd_def float_of_double_values Rot3_Quaternion_def)
  from pose_prior_of_lidar_pose [OF pre h0]
  have a0: "\<exists>imu_factor bias_factor vals. updates (optimizer s0) =
       [([imu_factor, bias_factor,
          PriorFactor_Pose3 (X 1)
            (Pose3 (Rot3M (- 1) 0 0 0 (- 1) 0 0 0 1) (Vector3 4 4 10))
            (Diagonal_Sigmas [5/100, 5/100, 5/100, 1/10, 1/10, 1/10])], vals),
        ([], [])]"
    by (simp add: k e m c vadd_def float_of_double_values Rot3_Quaternion_def)
  from a1 a0 h1 h0 pre lp cp show ?thesis
    by blast
qed

text \<open>
  The claim as stated, with the pose of the message itself, fails where the narrowing
  rounds: for a message at the position \<open>(1 + 2^-30, 0, 0)\<close> with the identity
  orientation and no extrinsic translation, the pose of the message composed with
  \<^verbatim>\<open>lidar2Imu\<close> has the translation \<open>(1 + 2^-30, 0, 0)\<close>, and the prior has
  \<open>(1, 0, 0)\<close>.
\<close>

theorem pose_prior_narrowing_counterexample:
  "(\<exists>s' imu_factor bias_factor vals.
     odometryHandler exampleDeps (fineOdomAt 2) readyState = Inr s'
     \<and> updates (optimizer s') =
       [([imu_factor, bias_factor,
          PriorFactor_Pose3 (X 1) (Pose3 Rot3_identity (Vector3 1 0 0))
            (Diagonal_Sigmas [5/100, 5/100, 5/100, 1/10, 1/10, 1/10])], vals),
        ([], [])])
   \<and> compose (Pose3 (Rot3_of (odom_orientation (fineOdomAt 2))) (position (fineOdomAt 2)))
        (lidar2Imu exampleDeps)
       = Pose3 Rot3_identity (Vector3 (1 + 1 / 2 ^ 30) 0 0)
   \<and> Pose3 Rot3_identity (Vector3 1 0 0) \<noteq> Pose3 Rot3_identity (Vector3 (1 + 1 / 2 ^ 30) 0 0)"
proof -
  have pre: "systemInitialized readyState" "imuQueOpt readyState \<noteq> []" "key readyState \<noteq> 100"
    by (simp_all add: example_defs)
  have k: "key readyState = 1" "updates (optimizer readyState) = []" "graphFactors readyState = []"
    by (simp_all add: example_defs ISAM2_new_def)
  have "\<exists>s'. odometryHandler exampleDeps (fineOdomAt 2) readyState = Inr s'"
    using float_of_double_near_1
    by (simp add: model_defs example_defs fineOdomAt_def)
  then obtain s' where h: "odometryHandler exampleDeps (fineOdomAt 2) readyState = Inr s'"
    by blast
  have p: "float_of_double (vx (position (fineOdomAt 2))) = 1"
    "float_of_double (vy (position (fineOdomAt 2))) = 0"
    "float_of_double (vz (position (fineOdomAt 2))) = 0"
    by (simp_all only: fineOdomAt_def odomAt_def Odometry.simps Vector3.sel
        float_of_double_near_1 float_of_double_values)
  have l: "compose (lidarPose_of (fineOdomAt 2)) (lidar2Imu exampleDeps)
      = Pose3 Rot3_identity (Vector3 1 0 0)"
    unfolding lidarPose_of_def Let_def p
    by (simp add: fineOdomAt_def odomAt_def lidar2Imu_def compose_def Rot3_Quaternion_def
        Rot3_identity_def vadd_def exampleDeps_def float_of_double_values)
  have c: "int_of_double (covariance (fineOdomAt 2) ! 0) \<noteq> 1"
    by (simp add: fineOdomAt_def odomAt_def int_of_double_def)
  from odometryHandler_pose_prior [OF pre h] l c k
  have a: "\<exists>imu_factor bias_factor vals. updates (optimizer s') =
       [([imu_factor, bias_factor,
          PriorFactor_Pose3 (X 1) (Pose3 Rot3_identity (Vector3 1 0 0))
            (Diagonal_Sigmas [5/100, 5/100, 5/100, 1/10, 1/10, 1/10])], vals),
        ([], [])]"
    by simp
  have b: "compose (Pose3 (Rot3_of (odom_orientation (fineOdomAt 2))) (position (fineOdomAt 2)))
        (lidar2Imu exampleDeps)
       = Pose3 Rot3_identity (Vector3 (1 + 1 / 2 ^ 30) 0 0)"
    by (simp add: fineOdomAt_def odomAt_def lidar2Imu_def compose_def Rot3_of_def
        Rot3_Quaternion_def Rot3_identity_def vadd_def exampleDeps_def)
  have d: "Pose3 Rot3_identity (Vector3 1 0 0)
      \<noteq> Pose3 Rot3_identity (Vector3 (1 + 1 / 2 ^ 30) 0 0)"
    by simp
  from a b d h show ?thesis
    by blast
qed

subsection \<open>The reset of the graph\<close>

text \<open>
  Claim C3. When \<^verbatim>\<open>odometryHandler\<close> runs (initialised, samples queued) with the key
  counter at 100, it goes on exactly as from the state \<open>resetGraph\<close> makes: the
  smoother is a new one (threshold 0.1, skip 1) that has received exactly one update,
  whose factors are the priors on \<open>X 0\<close>, \<open>V 0\<close>, \<open>B 0\<close> at \<open>prevPose\<close>,
  \<open>prevVel\<close>, \<open>prevBias\<close> with the Gaussian noise of the marginal covariances that
  the old smoother gives for \<open>X 99\<close>, \<open>V 99\<close>, \<open>B 99\<close>, and whose values are these
  same three; the two graph buffers are empty and the key counter is 1. The lidar pose
  of the call is then processed from that state: its factors are on the keys 0 and 1.
\<close>

theorem graph_reset_at_key_100:
  assumes "systemInitialized s" and "imuQueOpt s \<noteq> []" and "key s = 100"
  shows "odometryHandler d msg s = odometryHandler d msg (resetGraph d s)
   \<and> resetGraph d s =
       s\<lparr>optimizer :=
           \<lparr>params = Some \<lparr>relinearizeThreshold = 1/10, relinearizeSkip = 1\<rparr>,
            updates =
              [([PriorFactor_Pose3 (X 0) (prevPose s)
                   (Gaussian_Covariance (marginalCovariance d (optimizer s) (X 99))),
                 PriorFactor_Vector3 (V 0) (prevVel s)
                   (Gaussian_Covariance (marginalCovariance d (optimizer s) (V 99))),
                 PriorFactor_Bias (B 0) (prevBias s)
                   (Gaussian_Covariance (marginalCovariance d (optimizer s) (B 99)))],
                [(X 0, Pose3_value (prevPose s)), (V 0, Vector3_value (prevVel s)),
                 (B 0, Bias_value (prevBias s))])]\<rparr>,
         graphFactors := [], graphValues := [], key := 1\<rparr>
   \<and> (case odometryHandler d msg s of
         Inl e \<Rightarrow> True
       | Inr s' \<Rightarrow>
           (\<exists>p. updates (optimizer s') =
                  updates (optimizer (resetGraph d s)) @
                    [keyframeUpdate d (lidarPose_of msg) (degenerate_of msg) (resetGraph d s) p,
                     ([], [])])
           \<and> (key s' = 1 \<or> key s' = 2))"
proof (intro conjI)
  have "key (resetGraph d s) \<noteq> 100" by (simp add: resetGraph_frame)
  with assms show "odometryHandler d msg s = odometryHandler d msg (resetGraph d s)"
    by (simp add: odometryHandler_def Let_def resetGraph_frame)
next
  show "resetGraph d s =
       s\<lparr>optimizer :=
           \<lparr>params = Some \<lparr>relinearizeThreshold = 1/10, relinearizeSkip = 1\<rparr>,
            updates =
              [([PriorFactor_Pose3 (X 0) (prevPose s)
                   (Gaussian_Covariance (marginalCovariance d (optimizer s) (X 99))),
                 PriorFactor_Vector3 (V 0) (prevVel s)
                   (Gaussian_Covariance (marginalCovariance d (optimizer s) (V 99))),
                 PriorFactor_Bias (B 0) (prevBias s)
                   (Gaussian_Covariance (marginalCovariance d (optimizer s) (B 99)))],
                [(X 0, Pose3_value (prevPose s)), (V 0, Vector3_value (prevVel s)),
                 (B 0, Bias_value (prevBias s))])]\<rparr>,
         graphFactors := [], graphValues := [], key := 1\<rparr>"
    using assms(3)
    by (simp add: resetGraph_def resetOptimization_def ISAM2_update_def ISAM2_new_def Let_def)
next
  show "case odometryHandler d msg s of
         Inl e \<Rightarrow> True
       | Inr s' \<Rightarrow>
           (\<exists>p. updates (optimizer s') =
                  updates (optimizer (resetGraph d s)) @
                    [keyframeUpdate d (lidarPose_of msg) (degenerate_of msg) (resetGraph d s) p,
                     ([], [])])
           \<and> (key s' = 1 \<or> key s' = 2)"
  proof (cases "odometryHandler d msg s")
    case (Inl e)
    then show ?thesis by simp
  next
    case (Inr s')
    from odometryHandler_optimizer [OF assms(1,2) Inr] assms(3)
    have u: "\<exists>p. updates (optimizer s') =
                  updates (optimizer (resetGraph d s)) @
                    [keyframeUpdate d (lidarPose_of msg) (degenerate_of msg) (resetGraph d s) p,
                     ([], [])]"
      by auto
    obtain s3 where s3:
      "integrateAndOptimize d (odom_stamp msg) (lidarPose_of msg) (degenerate_of msg)
         (if key s = 100 then resetGraph d s else s) = Inr s3"
      "failureDetection (prevVel s3) (prevBias s3) \<Longrightarrow> s' = resetParams s3"
      "\<not> failureDetection (prevVel s3) (prevBias s3) \<Longrightarrow> repropagate (odom_stamp msg) s3 = Inr s'"
      using odometryHandler_normal [OF assms(1,2) Inr] by blast
    have k3: "key s3 = 1"
      using integrateAndOptimize_frame(6) [OF s3(1)] assms(3) by (simp add: resetGraph_frame)
    have "key s' = 1 \<or> key s' = 2"
    proof (cases "failureDetection (prevVel s3) (prevBias s3)")
      case True
      with s3(2) k3 show ?thesis by (simp add: resetParams_def)
    next
      case False
      with s3(3) k3 repropagate_frame(6) [of "odom_stamp msg" s3 s'] show ?thesis by simp
    qed
    with u Inr show ?thesis by simp
  qed
qed

theorem graph_reset_at_key_100_witness:
  "systemInitialized (readyState\<lparr>key := 100\<rparr>) \<and> key (readyState\<lparr>key := 100\<rparr>) = 100
   \<and> key (resetGraph exampleDeps (readyState\<lparr>key := 100\<rparr>)) = 1
   \<and> (\<exists>s'. odometryHandler exampleDeps (odomAt 2) (readyState\<lparr>key := 100\<rparr>) = Inr s'
          \<and> key s' = 2 \<and> length (updates (optimizer s')) = 3
          \<and> fst (hd (updates (optimizer s'))) =
               [PriorFactor_Pose3 (X 0) Pose3_identity (Gaussian_Covariance []),
                PriorFactor_Vector3 (V 0) (Vector3 0 0 0) (Gaussian_Covariance []),
                PriorFactor_Bias (B 0) ConstantBias_zero (Gaussian_Covariance [])])"
proof -
  let ?s = "readyState\<lparr>key := 100\<rparr>"
  have pre: "systemInitialized ?s" "imuQueOpt ?s \<noteq> []" "key ?s = 100"
    by (simp_all add: example_defs)
  note inst = graph_reset_at_key_100 [OF pre, of exampleDeps "odomAt 2"]
  from inst have a: "odometryHandler exampleDeps (odomAt 2) ?s
      = odometryHandler exampleDeps (odomAt 2) (resetGraph exampleDeps ?s)"
    by blast
  have b: "\<exists>s'. odometryHandler exampleDeps (odomAt 2) (resetGraph exampleDeps ?s) = Inr s'
          \<and> key s' = 2 \<and> length (updates (optimizer s')) = 3
          \<and> fst (hd (updates (optimizer s'))) =
               [PriorFactor_Pose3 (X 0) Pose3_identity (Gaussian_Covariance []),
                PriorFactor_Vector3 (V 0) (Vector3 0 0 0) (Gaussian_Covariance []),
                PriorFactor_Bias (B 0) ConstantBias_zero (Gaussian_Covariance [])]"
    by (simp add: model_defs example_defs)
  have c: "key (resetGraph exampleDeps ?s) = 1"
    by (simp add: resetGraph_frame)
  from a b c pre show ?thesis
    by simp
qed

subsection \<open>The hand-off to the forward propagation\<close>

lemma reintegrated_samples:
  "map (\<lambda>(a, g, dt). (a, g)) (reintegrated lastImuQT q)
     = map (\<lambda>m. (linear_acceleration m, angular_velocity m)) q"
  unfolding reintegrated_def
  by (induction q arbitrary: lastImuQT) simp_all

lemma reintegrate_result:
  "reintegrate lastImuQT p q = Inr p' \<Longrightarrow>
     biasHat p' = biasHat p \<and> measurements p' = measurements p @ reintegrated lastImuQT q"
proof (induction q arbitrary: lastImuQT p)
  case Nil
  then show ?case by (simp add: reintegrated_def)
next
  case (Cons m q)
  let ?dt = "if lastImuQT < 0 then 1 / 500 else stamp m - lastImuQT"
  from Cons.prems obtain p1 where
    p1: "integrateMeasurement (linear_acceleration m) (angular_velocity m) ?dt p = Inr p1"
    and r: "reintegrate (stamp m) p1 q = Inr p'"
    by (auto simp: Let_def split: sum.splits)
  from p1 have p1': "p1 = p\<lparr>measurements := measurements p @
      [(linear_acceleration m, angular_velocity m, ?dt)]\<rparr>"
    by (auto simp: integrateMeasurement_def split: if_splits)
  from Cons.IH [OF r] p1' show ?case
    by (simp add: reintegrated_def)
qed

lemma repropagate_forward:
  assumes "repropagate t s3 = Inr s'"
  shows "imuIntegratorImu s' =
     (if dropWhile (\<lambda>m. stamp m < t) (imuQueImu s3) = [] then imuIntegratorImu s3
      else \<lparr>biasHat = prevBias s3,
            measurements = reintegrated (lastPopped t (imuQueImu s3))
                             (dropWhile (\<lambda>m. stamp m < t) (imuQueImu s3))\<rparr>)"
proof -
  define q where "q = dropWhile (\<lambda>m. stamp m < t) (imuQueImu s3)"
  define l where "l = lastPopped t (imuQueImu s3)"
  have eq: "repropagate t s3 =
     (let s = s3\<lparr>prevStateOdom := prevState s3, prevBiasOdom := prevBias s3, imuQueImu := q\<rparr>
      in if q \<noteq> [] then
           (case reintegrate l \<lparr>biasHat = prevBias s3, measurements = []\<rparr> q of
              Inl e \<Rightarrow> Inl e
            | Inr p \<Rightarrow> Inr (s\<lparr>imuIntegratorImu := p, key := key s3 + 1, doneFirstOpt := True\<rparr>))
         else Inr (s\<lparr>key := key s3 + 1, doneFirstOpt := True\<rparr>))"
    unfolding repropagate_eq q_def l_def lastPopped_def Let_def ..
  have "imuIntegratorImu s' =
     (if q = [] then imuIntegratorImu s3
      else \<lparr>biasHat = prevBias s3, measurements = reintegrated l q\<rparr>)"
  proof (cases "q = []")
    case True
    with assms show ?thesis unfolding eq Let_def by auto
  next
    case False
    with assms obtain p where p: "reintegrate l \<lparr>biasHat = prevBias s3, measurements = []\<rparr> q = Inr p"
      and s': "imuIntegratorImu s' = p"
      unfolding eq Let_def by (auto split: sum.splits)
    from reintegrate_result [OF p] have "p = \<lparr>biasHat = prevBias s3, measurements = reintegrated l q\<rparr>"
      by simp
    with s' False show ?thesis by simp
  qed
  then show ?thesis by (simp add: q_def l_def)
qed

text \<open>
  Claim C1, amended. After a pass of \<^verbatim>\<open>odometryHandler\<close> that reaches the hand-off
  (initialised, samples queued, no failure reported) and returns, the seed of the
  forward propagation is the optimised state and bias, the optimisation preintegrator
  has been reset with that bias, and \<open>imuQueImu\<close> has lost its samples older than
  the lidar pose. If samples remain in \<open>imuQueImu\<close>, the forward preintegrator has
  been reset with the same bias and has integrated every remaining sample, in queue
  order (the first with the time step from the last popped sample, or 1/500 s when
  none was popped). If none remains, the forward preintegrator is the one the call
  started with: it is neither reset nor advanced.
\<close>

theorem handoff_repropagates_when_samples_remain:
  assumes "systemInitialized s" and "imuQueOpt s \<noteq> []"
    and "odometryHandler d msg s = Inr s'"
    and "failureDetection (prevVel s') (prevBias s') = False"
  shows "doneFirstOpt s'
     \<and> prevStateOdom s' = prevState s' \<and> prevBiasOdom s' = prevBias s'
     \<and> imuIntegratorOpt s' = \<lparr>biasHat = prevBias s', measurements = []\<rparr>
     \<and> imuQueImu s' = dropWhile (\<lambda>m. stamp m < odom_stamp msg) (imuQueImu s)
     \<and> imuIntegratorImu s' =
         (if imuQueImu s' = [] then imuIntegratorImu s
          else \<lparr>biasHat = prevBias s',
                measurements = reintegrated (lastPopped (odom_stamp msg) (imuQueImu s))
                                 (imuQueImu s')\<rparr>)
     \<and> map (\<lambda>(a, g, dt). (a, g))
           (reintegrated (lastPopped (odom_stamp msg) (imuQueImu s)) (imuQueImu s'))
         = map (\<lambda>m. (linear_acceleration m, angular_velocity m)) (imuQueImu s')"
proof -
  let ?s1 = "if key s = 100 then resetGraph d s else s"
  let ?t = "odom_stamp msg"
  obtain s3 where s3:
    "integrateAndOptimize d ?t (lidarPose_of msg) (degenerate_of msg) ?s1 = Inr s3"
    "\<not> failureDetection (prevVel s3) (prevBias s3) \<Longrightarrow> repropagate ?t s3 = Inr s'"
    using odometryHandler_normal [OF assms(1-3)] by blast
  have pv: "prevVel s' = prevVel s3" "prevBias s' = prevBias s3"
    using odometryHandler_prev [OF assms(1-3) s3(1)] by simp_all
  with assms(4) s3(2) have rp: "repropagate ?t s3 = Inr s'" by simp
  note f = integrateAndOptimize_frame [OF s3(1)]
  note g = repropagate_frame [OF rp]
  have q3: "imuQueImu s3 = imuQueImu s" and i3: "imuIntegratorImu s3 = imuIntegratorImu s"
    using f(2,3) by (simp_all add: resetGraph_frame)
  have o3: "imuIntegratorOpt s3 = \<lparr>biasHat = prevBias s3, measurements = []\<rparr>"
    using s3(1)
    by (auto simp: integrateAndOptimize_def optimizeKeyframe_def resetIntegrationAndSetBias_def
        Let_def split: sum.splits)
  have 1: "doneFirstOpt s'" by (rule g(5))
  have 2: "prevStateOdom s' = prevState s'" using g(12) g(4) by simp
  have 3: "prevBiasOdom s' = prevBias s'" using g(13) g(3) by simp
  have 4: "imuIntegratorOpt s' = \<lparr>biasHat = prevBias s', measurements = []\<rparr>"
    using g(10) o3 g(3) by simp
  have 5: "imuQueImu s' = dropWhile (\<lambda>m. stamp m < ?t) (imuQueImu s)"
    using g(14) q3 by simp
  have 6: "imuIntegratorImu s' =
         (if imuQueImu s' = [] then imuIntegratorImu s
          else \<lparr>biasHat = prevBias s',
                measurements = reintegrated (lastPopped ?t (imuQueImu s)) (imuQueImu s')\<rparr>)"
    using repropagate_forward [OF rp] q3 i3 5 g(3) by simp
  from 1 2 3 4 5 6 reintegrated_samples show ?thesis
    by blast
qed

theorem handoff_repropagates_when_samples_remain_witness:
  "\<exists>s'. odometryHandler exampleDeps (odomAt 2)
            (readyState\<lparr>imuQueOpt := [imuAt 1, imuAt 3], imuQueImu := [imuAt 1, imuAt 3]\<rparr>) = Inr s'
     \<and> failureDetection (prevVel s') (prevBias s') = False
     \<and> doneFirstOpt s' \<and> prevBiasOdom s' = ConstantBias_zero
     \<and> imuQueImu s' = [imuAt 3]
     \<and> imuIntegratorImu s' =
         \<lparr>biasHat = ConstantBias_zero,
          measurements = [(Vector3 0 0 (981 / 100), Vector3 0 0 0, 2)]\<rparr>"
proof -
  let ?s = "readyState\<lparr>imuQueOpt := [imuAt 1, imuAt 3], imuQueImu := [imuAt 1, imuAt 3]\<rparr>"
  have "\<exists>s'. odometryHandler exampleDeps (odomAt 2) ?s = Inr s'
      \<and> failureDetection (prevVel s') (prevBias s') = False \<and> prevBias s' = ConstantBias_zero"
    by (simp add: model_defs example_defs)
  then obtain s' where h: "odometryHandler exampleDeps (odomAt 2) ?s = Inr s'"
    and nf: "failureDetection (prevVel s') (prevBias s') = False"
    and b: "prevBias s' = ConstantBias_zero"
    by blast
  have pre: "systemInitialized ?s" "imuQueOpt ?s \<noteq> []"
    by (simp_all add: example_defs)
  have q: "dropWhile (\<lambda>m. stamp m < odom_stamp (odomAt 2)) (imuQueImu ?s) = [imuAt 3]"
    by (simp add: example_defs)
  have r: "reintegrated (lastPopped (odom_stamp (odomAt 2)) (imuQueImu ?s)) [imuAt 3]
      = [(Vector3 0 0 (981 / 100), Vector3 0 0 0, 2)]"
    by (simp add: reintegrated_def lastPopped_def example_defs)
  note inst = handoff_repropagates_when_samples_remain [OF pre h nf]
  from inst q have q': "imuQueImu s' = [imuAt 3]" by simp
  from inst have "imuIntegratorImu s' =
         (if imuQueImu s' = [] then imuIntegratorImu ?s
          else \<lparr>biasHat = prevBias s',
                measurements = reintegrated (lastPopped (odom_stamp (odomAt 2)) (imuQueImu ?s))
                                 (imuQueImu s')\<rparr>)"
    by blast
  with q' r b have i: "imuIntegratorImu s' =
         \<lparr>biasHat = ConstantBias_zero,
          measurements = [(Vector3 0 0 (981 / 100), Vector3 0 0 0, 2)]\<rparr>"
    by simp
  from inst b have "doneFirstOpt s'" "prevBiasOdom s' = ConstantBias_zero"
    by simp_all
  with h nf q' i show ?thesis
    by blast
qed

text \<open>
  The claim as stated fails when no sample remains after the drain: after one sample
  of time 1, the lidar pose of time 0 that initialises the system and a lidar pose of
  time 2, the pass succeeds with the new bias (0.1, 0, 0) in \<open>prevBiasOdom\<close> and in
  the optimisation preintegrator, \<open>imuQueImu\<close> is empty, and the forward
  preintegrator still has the bias zero of the initialisation.
\<close>

theorem handoff_empty_queue_counterexample:
  "\<exists>s'. run biasDeps [ImuEvent (imuAt 1), OdomEvent (odomAt 0), OdomEvent (odomAt 2)] initialState
          = Inr s'
     \<and> doneFirstOpt s' \<and> imuQueImu s' = []
     \<and> prevBiasOdom s' = \<lparr>accelerometer = Vector3 (1/10) 0 0, gyroscope = Vector3 0 0 0\<rparr>
     \<and> biasHat (imuIntegratorOpt s') = prevBiasOdom s'
     \<and> biasHat (imuIntegratorImu s') = ConstantBias_zero
     \<and> biasHat (imuIntegratorImu s') \<noteq> prevBiasOdom s'"
proof -
  let ?s1 = "initialState\<lparr>imuQueOpt := [imuAt 1], imuQueImu := [imuAt 1]\<rparr>"
  have e1: "imuHandler biasDeps (imuAt 1) initialState = Inr ?s1"
    by (simp add: imuHandler_def Let_def biasDeps_def exampleDeps_def initialState_def)
  have "\<exists>s2. odometryHandler biasDeps (odomAt 0) ?s1 = Inr s2
      \<and> (\<exists>s'. odometryHandler biasDeps (odomAt 2) s2 = Inr s'
     \<and> doneFirstOpt s' \<and> imuQueImu s' = []
     \<and> prevBiasOdom s' = \<lparr>accelerometer = Vector3 (1/10) 0 0, gyroscope = Vector3 0 0 0\<rparr>
     \<and> biasHat (imuIntegratorOpt s') = prevBiasOdom s'
     \<and> biasHat (imuIntegratorImu s') = ConstantBias_zero
     \<and> biasHat (imuIntegratorImu s') \<noteq> prevBiasOdom s')"
    by (simp add: model_defs example_defs biasDeps_def popOldImu_eq popOldImuQ_eq)
  then obtain s2 s' where e2: "odometryHandler biasDeps (odomAt 0) ?s1 = Inr s2"
    and e3: "odometryHandler biasDeps (odomAt 2) s2 = Inr s'"
    and c: "doneFirstOpt s' \<and> imuQueImu s' = []
     \<and> prevBiasOdom s' = \<lparr>accelerometer = Vector3 (1/10) 0 0, gyroscope = Vector3 0 0 0\<rparr>
     \<and> biasHat (imuIntegratorOpt s') = prevBiasOdom s'
     \<and> biasHat (imuIntegratorImu s') = ConstantBias_zero
     \<and> biasHat (imuIntegratorImu s') \<noteq> prevBiasOdom s'"
    by blast
  have "run biasDeps [ImuEvent (imuAt 1), OdomEvent (odomAt 0), OdomEvent (odomAt 2)] initialState
          = Inr s'"
    by (simp add: e1 e2 e3)
  with c show ?thesis by blast
qed

subsection \<open>The first sample after a start or a reset\<close>

lemma imuHandler_not_done:
  "doneFirstOpt s = False \<Longrightarrow>
     imuHandler d m s = Inr (s\<lparr>imuQueOpt := imuQueOpt s @ [imuConverter d m],
                               imuQueImu := imuQueImu s @ [imuConverter d m]\<rparr>)"
  by (simp add: imuHandler_def Let_def)

lemma imuHandler_done:
  assumes "doneFirstOpt s" and "imuHandler d m s = Inr s'"
  shows "doneFirstOpt s'"
  using assms unfolding imuHandler_def Let_def
  by (auto split: sum.splits)

lemma odometryHandler_lastImuT_imu:
  assumes "odometryHandler d msg s = Inr s'"
  shows "(lastImuT_imu s' = lastImuT_imu s \<and> (doneFirstOpt s' = doneFirstOpt s \<or> doneFirstOpt s'))
       \<or> (lastImuT_imu s' = - 1 \<and> doneFirstOpt s' = False)"
proof (cases "imuQueOpt s = []")
  case True
  with assms show ?thesis by (simp add: odometryHandler_def)
next
  case ne: False
  show ?thesis
  proof (cases "systemInitialized s")
    case False
    with ne assms have "s' = initializeSystem d (odom_stamp msg) (lidarPose_of msg) s"
      by (simp add: odometryHandler_def Let_def)
    then show ?thesis
      by (simp add: initializeSystem_def resetOptimization_def Let_def split: prod.splits)
  next
    case True
    let ?s1 = "if key s = 100 then resetGraph d s else s"
    obtain s3 where s3:
      "integrateAndOptimize d (odom_stamp msg) (lidarPose_of msg) (degenerate_of msg) ?s1 = Inr s3"
      "failureDetection (prevVel s3) (prevBias s3) \<Longrightarrow> s' = resetParams s3"
      "\<not> failureDetection (prevVel s3) (prevBias s3) \<Longrightarrow> repropagate (odom_stamp msg) s3 = Inr s'"
      using odometryHandler_normal [OF True ne assms] by blast
    have l3: "lastImuT_imu s3 = lastImuT_imu s"
      using integrateAndOptimize_frame(8) [OF s3(1)] by (simp add: resetGraph_frame)
    show ?thesis
    proof (cases "failureDetection (prevVel s3) (prevBias s3)")
      case True
      with s3(2) show ?thesis by (simp add: resetParams_def)
    next
      case False
      with s3(3) l3 repropagate_frame(5,7) [of "odom_stamp msg" s3 s'] show ?thesis by simp
    qed
  qed
qed

lemma handleEvent_invariant:
  assumes "handleEvent d e s = Inr s'"
    and "doneFirstOpt s = False \<longrightarrow> lastImuT_imu s = - 1"
  shows "doneFirstOpt s' = False \<longrightarrow> lastImuT_imu s' = - 1"
proof (cases e)
  case (ImuEvent m)
  show ?thesis
  proof (cases "doneFirstOpt s")
    case True
    with assms(1) ImuEvent imuHandler_done [of s d m s'] show ?thesis by simp
  next
    case False
    with assms ImuEvent imuHandler_not_done [of s d m] show ?thesis by auto
  qed
next
  case (OdomEvent msg)
  with assms odometryHandler_lastImuT_imu [of d msg s s'] show ?thesis by auto
qed

lemma run_invariant:
  "run d evs s = Inr s' \<Longrightarrow> (doneFirstOpt s = False \<longrightarrow> lastImuT_imu s = - 1)
     \<Longrightarrow> (doneFirstOpt s' = False \<longrightarrow> lastImuT_imu s' = - 1)"
proof (induction evs arbitrary: s)
  case Nil
  then show ?case by simp
next
  case (Cons e evs)
  from Cons.prems(1) obtain s1 where s1: "handleEvent d e s = Inr s1" and r: "run d evs s1 = Inr s'"
    by (auto split: sum.splits)
  from handleEvent_invariant [OF s1 Cons.prems(2)] Cons.IH [OF r] show ?case
    by blast
qed

lemma run_odom_lastImuT_imu:
  "run d (map OdomEvent msgs) s = Inr s' \<Longrightarrow> lastImuT_imu s = - 1 \<Longrightarrow> lastImuT_imu s' = - 1"
proof (induction msgs arbitrary: s)
  case Nil
  then show ?case by simp
next
  case (Cons msg msgs)
  from Cons.prems(1) obtain s1 where s1: "odometryHandler d msg s = Inr s1"
    and r: "run d (map OdomEvent msgs) s1 = Inr s'"
    by (auto split: sum.splits)
  from odometryHandler_lastImuT_imu [OF s1] Cons.prems(2) have "lastImuT_imu s1 = - 1"
    by auto
  with Cons.IH [OF r] show ?case by simp
qed

lemma imuHandler_bootstrap:
  assumes "doneFirstOpt s" and "lastImuT_imu s = - 1"
  shows "\<exists>s'. imuHandler d m s = Inr s'
     \<and> imuIntegratorImu s' = (imuIntegratorImu s)\<lparr>measurements := measurements (imuIntegratorImu s) @
          [(linear_acceleration (imuConverter d m), angular_velocity (imuConverter d m), 1 / 500)]\<rparr>
     \<and> lastImuT_imu s' = stamp (imuConverter d m)"
  using assms
  by (simp add: imuHandler_def integrateMeasurement_def Let_def)

text \<open>
  Claim C10. \<^verbatim>\<open>resetParams\<close> sets \<open>lastImuT_imu\<close> to -1, and \<^verbatim>\<open>imuHandler\<close> leaves
  \<open>lastImuT_imu\<close> as it is while \<open>doneFirstOpt\<close> is false. Therefore, in every run of
  the node from its start: from a state in which \<open>doneFirstOpt\<close> is false (the start,
  or after a reset by a failed check), once lidar poses have made \<open>doneFirstOpt\<close>
  true, \<open>lastImuT_imu\<close> is still -1, and the next sample is integrated by
  \<^verbatim>\<open>imuHandler\<close> with the time step 1/500 s, whatever its time stamp; the handler
  returns.
\<close>

theorem first_forward_sample_bootstrap_dt:
  assumes "run d evs initialState = Inr s" and "doneFirstOpt s = False"
    and "run d (map OdomEvent msgs) s = Inr s1" and "doneFirstOpt s1"
  shows "lastImuT_imu (resetParams s0) = - 1
     \<and> (doneFirstOpt s0 = False \<longrightarrow>
          (\<exists>s0'. imuHandler d m s0 = Inr s0' \<and> lastImuT_imu s0' = lastImuT_imu s0))
     \<and> lastImuT_imu s1 = - 1
     \<and> (\<exists>s2. imuHandler d m s1 = Inr s2
          \<and> imuIntegratorImu s2 =
              (imuIntegratorImu s1)\<lparr>measurements := measurements (imuIntegratorImu s1) @
                 [(linear_acceleration (imuConverter d m), angular_velocity (imuConverter d m),
                   1 / 500)]\<rparr>
          \<and> lastImuT_imu s2 = stamp (imuConverter d m))"
proof -
  have "doneFirstOpt initialState = False \<longrightarrow> lastImuT_imu initialState = - 1"
    by (simp add: initialState_def)
  from run_invariant [OF assms(1) this] assms(2) have "lastImuT_imu s = - 1"
    by simp
  from run_odom_lastImuT_imu [OF assms(3) this] have l1: "lastImuT_imu s1 = - 1" .
  have a: "lastImuT_imu (resetParams s0) = - 1"
    by (simp add: resetParams_def)
  have b: "doneFirstOpt s0 = False \<longrightarrow>
          (\<exists>s0'. imuHandler d m s0 = Inr s0' \<and> lastImuT_imu s0' = lastImuT_imu s0)"
    by (simp add: imuHandler_not_done)
  from a b l1 imuHandler_bootstrap [OF assms(4) l1, of d m] show ?thesis
    by blast
qed

theorem first_forward_sample_bootstrap_dt_witness:
  "\<exists>s s1 s2.
     run exampleDeps [ImuEvent (imuAt 1), OdomEvent (odomAt 0)] initialState = Inr s
     \<and> doneFirstOpt s = False
     \<and> run exampleDeps (map OdomEvent [odomAt 2]) s = Inr s1
     \<and> doneFirstOpt s1
     \<and> imuHandler exampleDeps (imuAt 7) s1 = Inr s2
     \<and> measurements (imuIntegratorImu s2) =
         measurements (imuIntegratorImu s1) @ [(Vector3 0 0 (981 / 100), Vector3 0 0 0, 1 / 500)]"
proof -
  let ?s1 = "initialState\<lparr>imuQueOpt := [imuAt 1], imuQueImu := [imuAt 1]\<rparr>"
  have e1: "imuHandler exampleDeps (imuAt 1) initialState = Inr ?s1"
    by (simp add: imuHandler_def Let_def exampleDeps_def initialState_def)
  have "\<exists>s. odometryHandler exampleDeps (odomAt 0) ?s1 = Inr s \<and> doneFirstOpt s = False
      \<and> (\<exists>s1. odometryHandler exampleDeps (odomAt 2) s = Inr s1 \<and> doneFirstOpt s1)"
    by (simp add: model_defs example_defs popOldImu_eq popOldImuQ_eq)
  then obtain s s1 where e2: "odometryHandler exampleDeps (odomAt 0) ?s1 = Inr s"
    and nd: "doneFirstOpt s = False"
    and e3: "odometryHandler exampleDeps (odomAt 2) s = Inr s1" and dn: "doneFirstOpt s1"
    by blast
  have r1: "run exampleDeps [ImuEvent (imuAt 1), OdomEvent (odomAt 0)] initialState = Inr s"
    by (simp add: e1 e2)
  have r2: "run exampleDeps (map OdomEvent [odomAt 2]) s = Inr s1"
    by (simp add: e3)
  from first_forward_sample_bootstrap_dt [OF r1 nd r2 dn, of s "imuAt 7"]
  obtain s2 where "imuHandler exampleDeps (imuAt 7) s1 = Inr s2"
    and "imuIntegratorImu s2 =
              (imuIntegratorImu s1)\<lparr>measurements := measurements (imuIntegratorImu s1) @
                 [(linear_acceleration (imuConverter exampleDeps (imuAt 7)),
                   angular_velocity (imuConverter exampleDeps (imuAt 7)), 1 / 500)]\<rparr>"
    by blast
  then have "imuHandler exampleDeps (imuAt 7) s1 = Inr s2
     \<and> measurements (imuIntegratorImu s2) =
         measurements (imuIntegratorImu s1) @ [(Vector3 0 0 (981 / 100), Vector3 0 0 0, 1 / 500)]"
    by (simp add: exampleDeps_def imuAt_def)
  with r1 nd r2 dn show ?thesis
    by blast
qed

end
